theory Spec2Isabelle
  imports Main "HOL-Library.AList" "HOL-Library.Sublist"
begin

section \<open>JavaScript values\<close>

text \<open>
  Schema fragments, parameters and parsed documents are plain JSON-like JavaScript
  values. An object is an association list in insertion order (keys are kept distinct by
  \<open>AList.update\<close>); \<open>JUndef\<close> is JavaScript's \<open>undefined\<close>, which a property holds
  after an assignment such as \<open>propDef.default = dataFile\<close> with a missing data file and
  which every read of a missing property returns. Numbers are integers: no number is
  computed by the code modelled here, they are only carried along.

  Conventions of the model, where JavaScript has more behaviour than the schema engine
  relies on: only own properties are looked at (a property name such as \<open>toString\<close>
  is not found on the prototype), property names are not array indices (JavaScript lists
  integer-like keys first), equal compound values stand for the same value (the model
  has values, not references), and a write through a value that is not a plain object
  leaves it as it is.
\<close>

datatype json =
    JUndef
  | JNull
  | JBool bool
  | JNum int
  | JStr string
  | JArr "json list"
  | JObj "(string \<times> json) list"

fun truthy :: "json \<Rightarrow> bool" where
  "truthy JUndef = False"
| "truthy JNull = False"
| "truthy (JBool b) = b"
| "truthy (JNum n) = (n \<noteq> 0)"
| "truthy (JStr s) = (s \<noteq> [])"
| "truthy (JArr xs) = True"
| "truthy (JObj fs) = True"

fun nullish :: "json \<Rightarrow> bool" where
  "nullish JUndef = True"
| "nullish JNull = True"
| "nullish v = False"

fun isArray :: "json \<Rightarrow> bool" where
  "isArray (JArr xs) = True"
| "isArray v = False"

fun isObject :: "json \<Rightarrow> bool" where
  "isObject (JObj fs) = True"
| "isObject v = False"

text \<open>\<open>a || b\<close>\<close>

definition js_or :: "json \<Rightarrow> json \<Rightarrow> json" where
  "js_or a b = (if truthy a then a else b)"

text \<open>Decimal digits, for array indices used as keys and for numbers inside messages.\<close>

function nat_str :: "nat \<Rightarrow> string" where
  "nat_str n =
     (if n < 10 then [char_of (48 + n)]
      else nat_str (n div 10) @ [char_of (48 + n mod 10)])"
  by pat_completeness auto
termination
  by (relation "measure id") auto

declare nat_str.simps [simp del]

definition int_str :: "int \<Rightarrow> string" where
  "int_str i = (if i < 0 then CHR ''-'' # nat_str (nat (- i)) else nat_str (nat i))"

text \<open>\<open>Object.entries(v)\<close>: the own enumerable properties of a value.\<close>

fun entries :: "json \<Rightarrow> (string \<times> json) list" where
  "entries (JObj fs) = fs"
| "entries (JArr xs) = map (\<lambda>i. (nat_str i, xs ! i)) [0..<length xs]"
| "entries (JStr s) = map (\<lambda>i. (nat_str i, JStr [s ! i])) [0..<length s]"
| "entries v = []"

definition keys :: "json \<Rightarrow> string list" where
  "keys v = map fst (entries v)"

definition vals :: "json \<Rightarrow> json list" where
  "vals v = map snd (entries v)"

text \<open>\<open>v[k]\<close>: reading a property; a missing one reads as \<open>undefined\<close>.\<close>

definition jget :: "json \<Rightarrow> string \<Rightarrow> json" where
  "jget v k = (case map_of (entries v) k of Some x \<Rightarrow> x | None \<Rightarrow> JUndef)"

text \<open>\<open>v[k] = x\<close> and \<open>delete v[k]\<close> on a plain object.\<close>

fun jset :: "json \<Rightarrow> string \<Rightarrow> json \<Rightarrow> json" where
  "jset (JObj fs) k x = JObj (AList.update k x fs)"
| "jset v k x = v"

fun jdelete :: "json \<Rightarrow> string \<Rightarrow> json" where
  "jdelete (JObj fs) k = JObj (AList.delete k fs)"
| "jdelete v k = v"

text \<open>\<open>Object.assign(target, source)\<close> for a target that is neither null nor undefined.\<close>

definition assign :: "json \<Rightarrow> json \<Rightarrow> json" where
  "assign target source = foldl (\<lambda>t (k, x). jset t k x) target (entries source)"

text \<open>
  \<open>String(v)\<close>, as a template literal interpolates a value into a message.
\<close>

fun intercalate :: "string \<Rightarrow> string list \<Rightarrow> string" where
  "intercalate sep [] = []"
| "intercalate sep [x] = x"
| "intercalate sep (x # y # ys) = x @ sep @ intercalate sep (y # ys)"

fun js_string :: "json \<Rightarrow> string" where
  "js_string JUndef = ''undefined''"
| "js_string JNull = ''null''"
| "js_string (JBool b) = (if b then ''true'' else ''false'')"
| "js_string (JNum n) = int_str n"
| "js_string (JStr s) = s"
| "js_string (JArr xs) =
     intercalate '','' (map (\<lambda>x. if nullish x then [] else js_string x) xs)"
| "js_string (JObj fs) = ''[object Object]''"

section \<open>Errors\<close>

text \<open>
  Every \<open>throw\<close> of the source is a constructor, carrying what its message
  interpolates. \<open>TypeError\<close> is the runtime's error on a read or call through a value of
  the wrong kind; \<open>ExternalError\<close> is an error raised inside a library, with its message.
\<close>

datatype error =
    SchemaNotFound string string string
  | NoDefinition json string
  | NoSchemaDefinition json string
  | UnknownPartial string
  | UnsupportedSectionType string json
  | RedefinedType string json json
  | RedefinedItems string json json
  | TemplateInvalid string
  | ValidatorCompileFailed string string
  | ParametersFailedValidation string string
  | PathTraversal string
  | ParsingReferencesFailed error
  | TypeError string
  | ExternalError string

fun message :: "error \<Rightarrow> string" where
  "message (SchemaNotFound schemaName mstType mstName) =
     ''Failed to find the specified schema: '' @ schemaName @ '' ('' @ mstType @ '', ''
       @ mstName @ '')''"
| "message (NoDefinition type schemaName) =
     ''No definition for '' @ js_string type @ '' in '' @ schemaName @ '' schema''"
| "message (NoSchemaDefinition schemaName defType) =
     ''No schema definition for '' @ js_string schemaName @ ''/'' @ defType"
| "message (UnknownPartial defName) = defName @ '' does not reference a known partial''"
| "message (UnsupportedSectionType defName defType) =
     ''unsupported type for section '' @ [CHR 0x22] @ defName @ [CHR 0x22] @ '': ''
       @ js_string defType"
| "message (RedefinedType defName defType existingType) =
     ''attempted to redefine '' @ defName @ '' as '' @ js_string defType
       @ '' but it was already defined as '' @ js_string existingType"
| "message (RedefinedItems defName itemsType existingType) =
     ''attempted to redefine '' @ defName @ ''.items as '' @ js_string itemsType
       @ '' but it'' @ ''was already defined as '' @ js_string existingType"
| "message (TemplateInvalid errors) = errors"
| "message (ValidatorCompileFailed schema compileError) =
     ''Failed to compile parameter validator'' @ [CHR 0x0A] @ ''schema:'' @ [CHR 0x0A]
       @ schema @ [CHR 0x0A] @ ''compile error:'' @ [CHR 0x0A] @ compileError"
| "message (ParametersFailedValidation parameters errors) =
     ''Parameters failed validation:'' @ [CHR 0x0A] @ parameters @ [CHR 0x0A, CHR 0x0A]
       @ ''Validation error:'' @ [CHR 0x0A] @ errors"
| "message (PathTraversal ref) = ''Found ref to path outside of the template set: '' @ ref"
| "message (ParsingReferencesFailed e) =
     ''Parsing references failed:'' @ [CHR 0x0A] @ ''Error: '' @ message e"
| "message (TypeError m) = m"
| "message (ExternalError m) = m"

section \<open>The deepmerge library\<close>

text \<open>
  \<open>deepmerge\<close> is a dependency of the repository, not part of it. The model follows the
  published behaviour of version 4: when exactly one of the operands is an array the
  source wins; two arrays are combined by the \<open>arrayMerge\<close> option, which defaults to
  concatenation; otherwise the result starts from the target's properties (when the
  target is an object) and takes each property of the source, merged recursively when the
  key is on the target and the source's value is an array or an object. The library
  clones what it copies; a clone is an equal value. A source that is \<open>null\<close> or
  \<open>undefined\<close> makes the library raise; the call sites that can pass one check for it.
\<close>

type_synonym arrayMerge = "json list \<Rightarrow> json list \<Rightarrow> json list"

definition arrayMergeOverwrite :: arrayMerge where
  "arrayMergeOverwrite dstArray srcArray = srcArray"

definition defaultArrayMerge :: arrayMerge where
  "defaultArrayMerge target source = target @ source"

fun isMergeableObject :: "json \<Rightarrow> bool" where
  "isMergeableObject (JArr xs) = True"
| "isMergeableObject (JObj fs) = True"
| "isMergeableObject v = False"

definition propertyIsOnObject :: "json \<Rightarrow> string \<Rightarrow> bool" where
  "propertyIsOnObject target key = (isObject target \<and> key \<in> set (keys target))"

definition emptyOrTarget :: "json \<Rightarrow> json" where
  "emptyOrTarget target = (if isObject target then target else JObj [])"

fun deepmerge :: "arrayMerge option \<Rightarrow> json \<Rightarrow> json \<Rightarrow> json"
  and mergeObject :: "arrayMerge option \<Rightarrow> json \<Rightarrow> (string \<times> json) list \<Rightarrow> json \<Rightarrow> json"
where
  "deepmerge am target (JArr s) =
     (case target of
        JArr t \<Rightarrow> JArr ((case am of None \<Rightarrow> defaultArrayMerge | Some f \<Rightarrow> f) t s)
      | _ \<Rightarrow> JArr s)"
| "deepmerge am target (JObj fs) =
     (if isArray target then JObj fs else mergeObject am target fs (emptyOrTarget target))"
| "deepmerge am target (JStr s) =
     (if isArray target then JStr s else assign (emptyOrTarget target) (JStr s))"
| "deepmerge am target source =
     (if isArray target then source else emptyOrTarget target)"
| "mergeObject am target [] destination = destination"
| "mergeObject am target ((key, x) # rest) destination =
     mergeObject am target rest
       (jset destination key
          (if propertyIsOnObject target key \<and> isMergeableObject x
           then deepmerge am (jget target key) x else x))"

text \<open>
  A call of the library as JavaScript makes it, and \<open>deepmerge.all(array, options)\<close>,
  which reduces from \<open>{}\<close>.
\<close>

definition deepmerge_js :: "arrayMerge option \<Rightarrow> json \<Rightarrow> json \<Rightarrow> error + json" where
  "deepmerge_js am target source =
     (if nullish source \<and> \<not> isArray target then Inl (TypeError ''Object.keys'')
      else Inr (deepmerge am target source))"

fun deepmerge_from :: "arrayMerge option \<Rightarrow> json \<Rightarrow> json list \<Rightarrow> error + json" where
  "deepmerge_from am prev [] = Inr prev"
| "deepmerge_from am prev (next # rest) =
     (case deepmerge_js am prev next of
        Inl e \<Rightarrow> Inl e
      | Inr merged \<Rightarrow> deepmerge_from am merged rest)"

definition deepmerge_all :: "arrayMerge option \<Rightarrow> json list \<Rightarrow> error + json" where
  "deepmerge_all am array = deepmerge_from am (JObj []) array"

section \<open>Merging one schema into another\<close>


text \<open>
  \<open>_mergeSchemaInto(dst, src, dstDeps)\<close> changes all three of its arguments; the model
  returns them. \<open>Object.assign\<close> raises on a destination without a \<open>properties\<close> value.
\<close>

definition noOverwrite :: "json \<Rightarrow> string \<Rightarrow> json \<Rightarrow> bool" where
  "noOverwrite dst prop propDef =
     (truthy (jget dst ''properties'')
      \<and> truthy (jget (jget dst ''properties'') prop)
      \<and> truthy (jget (jget (jget dst ''properties'') prop) ''type'')
      \<and> (jget (jget (jget dst ''properties'') prop) ''type'' = JStr ''array''
         \<or> jget (jget (jget dst ''properties'') prop) ''type'' = JStr ''string'')
      \<and> truthy (jget propDef ''type'')
      \<and> jget propDef ''type'' = JStr ''boolean'')"

definition filterProps :: "json \<Rightarrow> json \<Rightarrow> json" where
  "filterProps dst props =
     foldl (\<lambda>filtered (prop, propDef).
              if \<not> noOverwrite dst prop propDef then jset filtered prop propDef
              else filtered)
           (JObj []) (entries props)"

definition mergeSchemaInto :: "json \<Rightarrow> json \<Rightarrow> json \<Rightarrow> error + (json \<times> json \<times> json)" where
  "mergeSchemaInto dst src dstDeps =
     (if nullish src then Inl (TypeError ''src'')
      else if truthy (jget src ''properties'') then
        (let filtered = filterProps dst (jget src ''properties'');
             src' = jset src ''properties'' filtered
         in if nullish (jget dst ''properties'') then Inl (TypeError ''dst.properties'')
            else Inr (jset dst ''properties'' (assign (jget dst ''properties'') filtered),
                      src',
                      assign dstDeps
                        (deepmerge None dstDeps (js_or (jget src' ''dependencies'') (JObj [])))))
      else Inr (dst, src, dstDeps))"

definition isPropRequired :: "json \<Rightarrow> bool" where
  "isPropRequired propDef =
     (jget propDef ''format'' \<noteq> JStr ''hidden''
      \<and> jget propDef ''format'' \<noteq> JStr ''info''
      \<and> \<not> truthy (jget propDef ''mathExpression'')
      \<and> \<not> truthy (jget propDef ''dataFile'')
      \<and> jget propDef ''default'' = JUndef)"


section \<open>Tokens, the template object and the outside world\<close>

text \<open>
  A token of the tag stream, as \<open>Mustache.parse\<close> returns it: the type code
  (\<open>name\<close>, \<open>#\<close>, \<open>^\<close>, \<open>>\<close>, \<open>!\<close>, \<open>text\<close>, ...), the tag's text, and for a
  section its nested tokens (\<open>curr[4]\<close>).
\<close>

datatype token = Token string string "token list"

text \<open>
  The fields of a \<open>Template\<close> instance. \<open>typeDefinitions\<close>, \<open>partials\<close> and
  \<open>explicitDeps\<close> are \<open>_typeDefinitions\<close>, \<open>_partials\<close> and \<open>_explicitDeps\<close>;
  \<open>parametersSchema\<close> is \<open>_parametersSchema\<close>; \<open>hasValidator\<close> says whether
  \<open>_parametersValidator\<close> has been compiled. The composed sub-templates are held by
  the \<open>Template\<close> datatype around the record.
\<close>

record tfields =
  title :: json
  description :: json
  definitions :: json
  typeDefinitions :: json
  parametersSchema :: json
  partials :: json
  target :: json
  templateText :: json
  defaultParameters :: json
  sourceType :: json
  sourceText :: json
  sourceHash :: json
  hasValidator :: bool
  contentType :: json
  httpForward :: json
  explicitDeps :: json

datatype Template = Template tfields "Template list" "Template list" "Template list"

fun fields_of :: "Template \<Rightarrow> tfields" where
  "fields_of (Template f one all any) = f"

fun oneOf :: "Template \<Rightarrow> Template list" where
  "oneOf (Template f one all any) = one"

fun allOf :: "Template \<Rightarrow> Template list" where
  "allOf (Template f one all any) = all"

fun anyOf :: "Template \<Rightarrow> Template list" where
  "anyOf (Template f one all any) = any"

text \<open>\<open>new Template()\<close>\<close>

definition newFields :: tfields where
  "newFields = \<lparr> title = JStr [], description = JStr [], definitions = JObj [],
     typeDefinitions = JObj [], parametersSchema = JObj [], partials = JObj [],
     target = JStr ''as3'', templateText = JStr [], defaultParameters = JObj [],
     sourceType = JStr ''UNKNOWN'', sourceText = JStr [], sourceHash = JStr [],
     hasValidator = False, contentType = JStr ''text/plain'', httpForward = JNull,
     explicitDeps = JObj [] \<rparr>"

definition newTemplate :: Template where
  "newTemplate = Template newFields [] [] []"

text \<open>
  What the code calls outside the repository, taken as parameters: the tokenizer and
  renderer of the template engine (the renderer is given the engine's global escaping
  function), base64 coding, the expression evaluator, the schema validator (the
  meta-schema check of a template document, the compilation of a parameter schema, and
  the compiled validator of a schema applied to parameters, each returning the errors
  if there are any), YAML and JSON serialisation (\<open>JSON_stringify2\<close> indents by two),
  the digest, and path arithmetic.
\<close>

record env =
  Mustache_parse :: "json \<Rightarrow> error + token list"
  Mustache_render :: "(string \<Rightarrow> string) \<Rightarrow> string \<Rightarrow> json \<Rightarrow> json \<Rightarrow> error + string"
  base64_encode :: "json \<Rightarrow> error + json"
  base64_decode :: "json \<Rightarrow> error + json"
  mexp_eval :: "json \<Rightarrow> json \<Rightarrow> json \<Rightarrow> error + json"
  metaschema_errors :: "json \<Rightarrow> json option"
  ajv_compile :: "json \<Rightarrow> error option"
  ajv_validate :: "json \<Rightarrow> json \<Rightarrow> json option"
  yaml_load :: "json \<Rightarrow> error + json"
  yaml_dump :: "json \<Rightarrow> error + json"
  JSON_stringify :: "json \<Rightarrow> json"
  JSON_stringify2 :: "json \<Rightarrow> json"
  sha256_hex :: "json \<Rightarrow> error + string"
  path_relative :: "string \<Rightarrow> string \<Rightarrow> string"

section \<open>Schema inference\<close>

text \<open>\<open>mstName.split(':')\<close> and the destructuring of its first three parts.\<close>

fun split_on :: "char \<Rightarrow> string \<Rightarrow> string list" where
  "split_on c [] = [[]]"
| "split_on c (x # xs) =
     (if x = c then [] # split_on c xs
      else (case split_on c xs of [] \<Rightarrow> [[x]] | p # ps \<Rightarrow> (x # p) # ps))"

definition part :: "string list \<Rightarrow> nat \<Rightarrow> json" where
  "part ps i = (if i < length ps then JStr (ps ! i) else JUndef)"

text \<open>A \<open>Set\<close> in insertion order, and \<open>[...new Set(v)]\<close>.\<close>

definition set_add :: "json \<Rightarrow> json list \<Rightarrow> json list" where
  "set_add x xs = (if x \<in> set xs then xs else xs @ [x])"

definition set_delete :: "json \<Rightarrow> json list \<Rightarrow> json list" where
  "set_delete x xs = removeAll x xs"

definition dedup :: "json list \<Rightarrow> json list" where
  "dedup xs = foldl (\<lambda>s x. set_add x s) [] xs"

fun new_Set :: "json \<Rightarrow> error + json list" where
  "new_Set (JArr xs) = Inr (dedup xs)"
| "new_Set (JStr s) = Inr (dedup (map (\<lambda>c. JStr [c]) s))"
| "new_Set JUndef = Inr []"
| "new_Set JNull = Inr []"
| "new_Set v = Inl (TypeError ''not iterable'')"

text \<open>
  The accumulator of the reduction over the tokens: the schema under construction, the
  \<open>required\<close> set, the \<open>dependencies\<close> object, and the template's own fields, which
  the reduction also changes.
\<close>

record istate =
  acc :: json
  required :: "json list"
  dependencies :: json
  this :: tfields

definition primitives :: "string list" where
  "primitives = [''boolean'', ''object'', ''number'', ''string'', ''integer'', ''array'',
     ''text'', ''hidden'']"

text \<open>
  The check and the bookkeeping that every \<open>name\<close>, \<open>#\<close>, \<open>>\<close> and \<open>^\<close> token with a
  schema name goes through before the \<open>switch\<close>.
\<close>

definition resolveSchema ::
  "json \<Rightarrow> string \<Rightarrow> string \<Rightarrow> json \<Rightarrow> json \<Rightarrow> istate \<Rightarrow> error + istate" where
  "resolveSchema typeSchemas mstType mstName schemaName type s =
     (if mstType \<in> set [''name'', ''#'', ''>'', ''^''] then
        (if truthy schemaName \<and> jget typeSchemas (js_string schemaName) = JUndef
         then Inl (SchemaNotFound (js_string schemaName) mstType mstName)
         else if truthy schemaName then
           (let defs = jget (jget typeSchemas (js_string schemaName)) ''definitions'' in
            if nullish (jget typeSchemas (js_string schemaName)) \<or> nullish defs
            then Inl (TypeError ''definitions'')
            else
              (let schemaDef = jget defs (js_string type) in
               if \<not> truthy schemaDef then Inl (NoDefinition type (js_string schemaName))
               else Inr (s\<lparr> this := (this s)\<lparr>
                   definitions := jset (definitions (this s)) (js_string type)
                     (assign (assign (JObj []) schemaDef)
                        (jget (definitions (this s)) (js_string type))),
                   typeDefinitions := assign (typeDefinitions (this s)) defs \<rparr>\<rparr>)))
         else Inr s)
      else Inr s)"

text \<open>The \<open>name\<close> case, in the order of the source.\<close>

definition primitiveDef :: "json \<Rightarrow> json \<Rightarrow> json \<Rightarrow> json" where
  "primitiveDef typeSchemas schemaName defType =
     (if truthy schemaName then
        assign (JObj [])
          (jget (jget (jget typeSchemas (js_string schemaName)) ''definitions'')
             (js_string defType))
      else if defType = JStr ''text'' then
        JObj [(''type'', JStr ''string''), (''format'', JStr ''text'')]
      else if defType = JStr ''array'' then
        JObj [(''type'', defType), (''items'', JObj [(''type'', JStr ''string'')])]
      else if defType = JStr ''hidden'' then
        JObj [(''type'', JStr ''string''), (''format'', JStr ''hidden'')]
      else JObj [(''type'', defType)])"

text \<open>
  The fragment a variable token declares: the primitive or type-schema fragment with the
  author's definition of the same name assigned on top.
\<close>

definition nameDef :: "json \<Rightarrow> json \<Rightarrow> json \<Rightarrow> string \<Rightarrow> tfields \<Rightarrow> json" where
  "nameDef typeSchemas schemaName defType defName t =
     (if truthy (jget (definitions t) defName)
      then assign (primitiveDef typeSchemas schemaName defType) (jget (definitions t) defName)
      else primitiveDef typeSchemas schemaName defType)"

text \<open>\<open>propDef.mathExpression.includes(key)\<close>\<close>

fun js_includes :: "json \<Rightarrow> string \<Rightarrow> error + bool" where
  "js_includes (JStr s) key = Inr (sublist key s)"
| "js_includes (JArr xs) key = Inr (JStr key \<in> set xs)"
| "js_includes v key = Inl (TypeError ''includes'')"

text \<open>
  The loop over \<open>Object.entries(this._typeDefinitions)\<close> that pulls in the definitions a
  math expression mentions; it changes \<open>acc.properties\<close> and \<open>required\<close>.
\<close>

fun mathPull :: "json \<Rightarrow> (string \<times> json) list \<Rightarrow> json \<Rightarrow> json list
    \<Rightarrow> error + (json \<times> json list)" where
  "mathPull mathExpression [] props req = Inr (props, req)"
| "mathPull mathExpression ((key, defProp) # rest) props req =
     (if truthy (jget props key) then mathPull mathExpression rest props req
      else (case js_includes mathExpression key of
              Inl e \<Rightarrow> Inl e
            | Inr False \<Rightarrow> mathPull mathExpression rest props req
            | Inr True \<Rightarrow>
                mathPull mathExpression rest
                  (jset props key (assign (JObj []) defProp)) (set_add (JStr key) req)))"

definition infoConst :: "json \<Rightarrow> json" where
  "infoConst propDef =
     (if jget propDef ''format'' = JStr ''info'' \<and> \<not> truthy (jget propDef ''const'')
      then jset propDef ''const'' (JStr []) else propDef)"

definition defaultHidden :: "json \<Rightarrow> json" where
  "defaultHidden propDef =
     (if \<not> truthy (jget propDef ''format'') then jset propDef ''format'' (JStr ''hidden'')
      else propDef)"

definition loadDataFile :: "env \<Rightarrow> json \<Rightarrow> json \<Rightarrow> error + json" where
  "loadDataFile E dataFiles propDef =
     (if truthy (jget propDef ''dataFile'') then
        (let p = defaultHidden propDef;
             dataFile = jget dataFiles (js_string (jget p ''dataFile''))
         in case (if truthy (jget p ''toBase64'') then base64_encode E dataFile
                  else if truthy (jget p ''fromBase64'') then base64_decode E dataFile
                  else Inr dataFile) of
              Inl e \<Rightarrow> Inl e
            | Inr d \<Rightarrow> Inr (jdelete (jset p ''default'' d) ''dataFile''))
      else Inr propDef)"

definition setProp :: "json \<Rightarrow> string \<Rightarrow> json \<Rightarrow> json" where
  "setProp schema name propDef =
     jset schema ''properties'' (jset (jget schema ''properties'') name propDef)"

definition handleName ::
  "env \<Rightarrow> json \<Rightarrow> json \<Rightarrow> string \<Rightarrow> json \<Rightarrow> json \<Rightarrow> istate \<Rightarrow> error + istate" where
  "handleName E typeSchemas dataFiles defName schemaName type s =
     (let defType = js_or type (JStr ''string'') in
      if \<not> truthy schemaName \<and> js_string defType \<notin> set primitives
      then Inl (NoSchemaDefinition schemaName (js_string defType))
      else
        (let propDef0 = nameDef typeSchemas schemaName defType defName (this s);
             acc0 = setProp (acc s) defName propDef0;
             required0 = (if isPropRequired propDef0 then set_add (JStr defName) (required s)
                          else required s);
             propDef1 = infoConst propDef0;
             propDef2 = (if truthy (jget propDef1 ''mathExpression'')
                         then defaultHidden propDef1 else propDef1)
         in case (if truthy (jget propDef1 ''mathExpression'')
                  then mathPull (jget propDef1 ''mathExpression'')
                         (entries (typeDefinitions (this s)))
                         (jget (setProp acc0 defName propDef2) ''properties'') required0
                  else Inr (jget acc0 ''properties'', required0)) of
              Inl e \<Rightarrow> Inl e
            | Inr (props1, required1) \<Rightarrow>
                (case loadDataFile E dataFiles propDef2 of
                   Inl e \<Rightarrow> Inl e
                 | Inr propDef3 \<Rightarrow>
                     Inr (s\<lparr> acc := jset acc0 ''properties'' (jset props1 defName propDef3),
                             required := required1 \<rparr>))))"

text \<open>The \<open>>\<close> case.\<close>

fun addAll :: "json \<Rightarrow> json list \<Rightarrow> error + json list" where
  "addAll (JArr xs) req = Inr (foldl (\<lambda>r x. set_add x r) req xs)"
| "addAll v req = Inl (TypeError ''forEach'')"

definition handlePartial :: "string \<Rightarrow> istate \<Rightarrow> error + istate" where
  "handlePartial defName s =
     (if \<not> truthy (jget (partials (this s)) defName) then Inl (UnknownPartial defName)
      else
        (case mergeSchemaInto (acc s) (jget (typeDefinitions (this s)) defName)
                (dependencies s) of
           Inl e \<Rightarrow> Inl e
         | Inr (acc', partial, deps') \<Rightarrow>
             (case (if truthy (jget partial ''required'')
                    then addAll (jget partial ''required'') (required s)
                    else Inr (required s)) of
                Inl e \<Rightarrow> Inl e
              | Inr required' \<Rightarrow>
                  Inr (s\<lparr> acc := acc', required := required', dependencies := deps',
                          this := (this s)\<lparr> typeDefinitions :=
                            jset (typeDefinitions (this s)) defName partial \<rparr> \<rparr>))))"


text \<open>The \<open>#\<close> case, after the nested tokens have been inferred into \<open>items\<close>.\<close>

fun filterRequired :: "json \<Rightarrow> json \<Rightarrow> error + json" where
  "filterRequired props (JArr []) = Inr (JArr [])"
| "filterRequired props (JArr (x # xs)) =
     (if nullish props \<or> nullish (jget props (js_string x))
      then Inl (TypeError ''default'')
      else (case filterRequired props (JArr xs) of
              Inl e \<Rightarrow> Inl e
            | Inr (JArr ys) \<Rightarrow>
                Inr (JArr (if jget (jget props (js_string x)) ''default'' = JUndef
                           then x # ys else ys))
            | Inr v \<Rightarrow> Inr v))"
| "filterRequired props v = Inl (TypeError ''filter'')"

definition arrayItems :: "json \<Rightarrow> json \<Rightarrow> error + json" where
  "arrayItems items newDef =
     (let newDef1 = jset newDef ''items'' (js_or (jget newDef ''items'') (JObj []));
          newDef2 = jset newDef1 ''skip_xform'' (JBool True);
          newDef3 = jset newDef2 ''items''
                      (deepmerge None (js_or items (JObj []))
                         (js_or (jget newDef2 ''items'') (JObj [])))
      in if truthy (jget (jget newDef3 ''items'') ''required'') then
           (case filterRequired (jget (jget newDef3 ''items'') ''properties'')
                   (jget (jget newDef3 ''items'') ''required'') of
              Inl e \<Rightarrow> Inl e
            | Inr r \<Rightarrow> Inr (jset newDef3 ''items'' (jset (jget newDef3 ''items'') ''required'' r)))
         else Inr newDef3)"

definition sectionDef :: "string \<Rightarrow> json \<Rightarrow> json \<Rightarrow> json \<Rightarrow> error + json" where
  "sectionDef defName defType schemaDef items =
     (let newDef = assign (JObj [(''type'', defType)]) schemaDef in
      if defType = JStr ''array'' then arrayItems items newDef
      else if defType = JStr ''object''
        then Inr (jset (assign newDef items) ''skip_xform'' (JBool True))
      else if \<not> (defType = JStr ''boolean'' \<or> defType = JStr ''string'')
        then Inl (UnsupportedSectionType defName defType)
      else Inr newDef)"

definition checkRedefinition :: "string \<Rightarrow> json \<Rightarrow> json \<Rightarrow> json \<Rightarrow> error + unit" where
  "checkRedefinition defName defType existingDef newDef =
     (if truthy (jget existingDef ''type'') \<and> jget existingDef ''type'' \<noteq> defType
      then Inl (RedefinedType defName defType (jget existingDef ''type''))
      else if truthy (jget existingDef ''items'') \<and> truthy (jget newDef ''items'')
              \<and> jget (jget existingDef ''items'') ''type'' \<noteq> jget (jget newDef ''items'') ''type''
      then Inl (RedefinedItems defName (jget (jget newDef ''items'') ''type'')
                  (jget (jget existingDef ''items'') ''type''))
      else Inr ())"

definition pushDep :: "json \<Rightarrow> string \<Rightarrow> string \<Rightarrow> error + json" where
  "pushDep deps item defName =
     (case (if truthy (jget deps item) then jget deps item else JArr []) of
        JArr xs \<Rightarrow> Inr (jset deps item (JArr (xs @ [JStr defName])))
      | _ \<Rightarrow> Inl (TypeError ''push''))"

fun pushDeps :: "json \<Rightarrow> string list \<Rightarrow> string \<Rightarrow> error + json" where
  "pushDeps deps [] defName = Inr deps"
| "pushDeps deps (item # rest) defName =
     (case pushDep deps item defName of
        Inl e \<Rightarrow> Inl e
      | Inr deps' \<Rightarrow> pushDeps deps' rest defName)"

definition dedupKey :: "json \<Rightarrow> string \<Rightarrow> error + json" where
  "dedupKey v k =
     (if truthy (jget v k) then
        (case new_Set (jget v k) of
           Inl e \<Rightarrow> Inl e
         | Inr xs \<Rightarrow> Inr (jset v k (JArr xs)))
      else Inr v)"

definition dedupRequired :: "json \<Rightarrow> error + json" where
  "dedupRequired propDef =
     (case dedupKey propDef ''required'' of
        Inl e \<Rightarrow> Inl e
      | Inr p \<Rightarrow>
          if truthy (jget p ''items'') \<and> truthy (jget (jget p ''items'') ''required'') then
            (case dedupKey (jget p ''items'') ''required'' of
               Inl e \<Rightarrow> Inl e
             | Inr i \<Rightarrow> Inr (jset p ''items'' i))
          else Inr p)"

text \<open>
  The fragment a section resolves to (the named type definition with the author's
  definition merged over it), its type, and what the accumulator already holds under
  the section's name.
\<close>

definition sectionSchemaDef :: "tfields \<Rightarrow> json \<Rightarrow> string \<Rightarrow> json" where
  "sectionSchemaDef t type defName =
     deepmerge None (js_or (jget (typeDefinitions t) (js_string type)) (JObj []))
       (js_or (jget (definitions t) defName) (JObj []))"

definition sectionType :: "tfields \<Rightarrow> json \<Rightarrow> string \<Rightarrow> json" where
  "sectionType t type defName =
     js_or (jget (sectionSchemaDef t type defName) ''type'') (JStr ''array'')"

definition existingDefOf :: "json \<Rightarrow> string \<Rightarrow> json" where
  "existingDefOf schema defName = js_or (jget (jget schema ''properties'') defName) (JObj [])"

definition handleSection :: "string \<Rightarrow> json \<Rightarrow> json \<Rightarrow> istate \<Rightarrow> error + istate" where
  "handleSection defName type items s =
     (let schemaDef = sectionSchemaDef (this s) type defName;
          defType = sectionType (this s) type defName;
          existingDef = existingDefOf (acc s) defName;
          asBool = (defType = JStr ''boolean'' \<or> defType = JStr ''string'')
      in case sectionDef defName defType schemaDef items of
           Inl e \<Rightarrow> Inl e
         | Inr newDef \<Rightarrow>
        (case checkRedefinition defName defType existingDef newDef of
           Inl e \<Rightarrow> Inl e
         | Inr u \<Rightarrow>
        (case (if truthy (jget items ''properties'')
               then pushDeps (dependencies s) (keys (jget items ''properties'')) defName
               else Inr (dependencies s)) of
           Inl e \<Rightarrow> Inl e
         | Inr deps1 \<Rightarrow>
        (case (if asBool then mergeSchemaInto (acc s) items deps1
               else Inr (acc s, items, deps1)) of
           Inl e \<Rightarrow> Inl e
         | Inr (acc1, items1, deps2) \<Rightarrow>
        (case dedupRequired (deepmerge None existingDef newDef) of
           Inl e \<Rightarrow> Inl e
         | Inr propDef \<Rightarrow>
             Inr (s\<lparr> acc := setProp acc1 defName propDef,
                     required := (if isPropRequired propDef
                                  then set_add (JStr defName) (required s) else required s),
                     dependencies := deps2 \<rparr>))))))"

text \<open>The \<open>^\<close> case, after the nested tokens have been inferred into \<open>items\<close>.\<close>

definition pushInvert :: "json \<Rightarrow> string \<Rightarrow> error + json" where
  "pushInvert propDef defName =
     (if nullish propDef then Inl (TypeError ''invertDependency'')
      else if isArray propDef then Inr propDef
      else if \<not> isObject propDef then Inl (TypeError ''invertDependency'')
      else
        (case (if truthy (jget propDef ''invertDependency'')
               then jget propDef ''invertDependency'' else JArr []) of
           JArr xs \<Rightarrow> Inr (jset propDef ''invertDependency'' (JArr (xs @ [JStr defName])))
         | _ \<Rightarrow> Inl (TypeError ''push'')))"

fun invertDeps :: "json \<Rightarrow> string list \<Rightarrow> string \<Rightarrow> json \<Rightarrow> json
    \<Rightarrow> error + (json \<times> json)" where
  "invertDeps explicit [] defName deps items = Inr (deps, items)"
| "invertDeps explicit (item # rest) defName deps items =
     (if truthy (jget explicit item) then invertDeps explicit rest defName deps items
      else
        (case pushDep deps item defName of
           Inl e \<Rightarrow> Inl e
         | Inr deps' \<Rightarrow>
             (case pushInvert (jget (jget items ''properties'') item) defName of
                Inl e \<Rightarrow> Inl e
              | Inr propDef \<Rightarrow>
                  invertDeps explicit rest defName deps' (setProp items item propDef))))"

definition handleInverted :: "string \<Rightarrow> json \<Rightarrow> json \<Rightarrow> istate \<Rightarrow> error + istate" where
  "handleInverted defName type items s =
     (let typeDef = jget (typeDefinitions (this s)) (js_string type);
          schemaDef = assign (js_or typeDef (JObj []))
                        (js_or (jget (definitions (this s)) defName) (JObj []));
          this1 = (if truthy typeDef
                   then (this s)\<lparr> typeDefinitions :=
                          jset (typeDefinitions (this s)) (js_string type) schemaDef \<rparr>
                   else this s);
          acc1 = (if \<not> truthy (jget (jget (acc s) ''properties'') defName)
                  then setProp (acc s) defName
                         (assign (JObj [(''type'', JStr ''boolean'')]) schemaDef)
                  else acc s)
      in case (if truthy (jget items ''properties'')
               then invertDeps (explicitDeps this1) (keys (jget items ''properties''))
                      defName (dependencies s) items
               else Inr (dependencies s, items)) of
           Inl e \<Rightarrow> Inl e
         | Inr (deps1, items1) \<Rightarrow>
             (let acc2 = (if truthy (jget (definitions this1) defName)
                          then setProp acc1 defName
                                 (assign (jget (jget acc1 ''properties'') defName)
                                    (jget (definitions this1) defName))
                          else acc1)
              in case mergeSchemaInto acc2 items1 deps1 of
                   Inl e \<Rightarrow> Inl e
                 | Inr (acc3, items2, deps2) \<Rightarrow>
                     Inr (s\<lparr> acc := acc3,
                             required := set_delete (JStr defName) (required s),
                             dependencies := deps2, this := this1 \<rparr>)))"

text \<open>What happens to the reduced schema before it is returned.\<close>

fun index_of :: "string \<Rightarrow> string list \<Rightarrow> nat option" where
  "index_of k [] = None"
| "index_of k (x # xs) =
     (if x = k then Some 0 else map_option Suc (index_of k xs))"

definition propertyOrder :: "json \<Rightarrow> string \<Rightarrow> nat" where
  "propertyOrder defs prop =
     (case index_of prop (keys defs) of Some idx \<Rightarrow> idx | None \<Rightarrow> 1000)"

definition orderedProps :: "json \<Rightarrow> json \<Rightarrow> json" where
  "orderedProps defs props =
     foldl (\<lambda>sorted (order, cur).
              jset sorted (js_string (jget cur ''name''))
                (jdelete (jdelete cur ''name'') ''propertyOrder''))
       (JObj [])
       (sort_key fst
          (map (\<lambda>(key, def).
                  (propertyOrder defs key,
                   jset (assign (JObj [(''name'', JStr key)]) def) ''propertyOrder''
                     (JNum (int (propertyOrder defs key)))))
             (entries props)))"

fun dedupAll :: "string list \<Rightarrow> json \<Rightarrow> error + json" where
  "dedupAll [] deps = Inr deps"
| "dedupAll (prop # rest) deps =
     (case new_Set (jget deps prop) of
        Inl e \<Rightarrow> Inl e
      | Inr xs \<Rightarrow> dedupAll rest (jset deps prop (JArr xs)))"

definition stringSchema :: json where
  "stringSchema = JObj [(''type'', JStr ''string'')]"

definition finishParsed :: "istate \<Rightarrow> error + (json \<times> tfields)" where
  "finishParsed s =
     (let schema = acc s; props = jget schema ''properties'' in
      if truthy (jget props ''.'') \<and> length (keys props) = 1
        then Inr (stringSchema, this s)
      else if length (keys props) < 1 then Inr (stringSchema, this s)
      else if \<exists>def \<in> set (vals props). \<not> isObject def \<and> \<not> isArray def
        then Inl (TypeError ''propertyOrder'')
      else
        (let schema1 = jset schema ''properties'' (orderedProps (definitions (this s)) props);
             deps1 = foldl (\<lambda>d value. jdelete d (js_string value)) (dependencies s) (required s)
         in case dedupAll (keys deps1) deps1 of
              Inl e \<Rightarrow> Inl e
            | Inr deps2 \<Rightarrow>
                (let schema2 = jset schema1 ''required'' (JArr (required s)) in
                 Inr (if length (keys deps2) > 0 \<or> length (keys (explicitDeps (this s))) > 0
                      then jset schema2 ''dependencies'' (assign deps2 (explicitDeps (this s)))
                      else schema2,
                      this s))))"

text \<open>\<open>_handleParsed\<close>: the reduction over the tokens, recursive through sections.\<close>

definition initialState :: "tfields \<Rightarrow> istate" where
  "initialState t = \<lparr> acc = JObj [(''type'', JStr ''object''), (''properties'', JObj [])],
     required = [], dependencies = JObj [], this = t \<rparr>"

fun handleParsed :: "env \<Rightarrow> json \<Rightarrow> json \<Rightarrow> token list \<Rightarrow> tfields \<Rightarrow> error + (json \<times> tfields)"
  and reduceTokens :: "env \<Rightarrow> json \<Rightarrow> json \<Rightarrow> token list \<Rightarrow> istate \<Rightarrow> error + istate"
  and handleToken :: "env \<Rightarrow> json \<Rightarrow> json \<Rightarrow> token \<Rightarrow> istate \<Rightarrow> error + istate"
where
  "handleParsed E typeSchemas dataFiles parsed t =
     (case reduceTokens E typeSchemas dataFiles parsed (initialState t) of
        Inl e \<Rightarrow> Inl e
      | Inr s \<Rightarrow> finishParsed s)"
| "reduceTokens E typeSchemas dataFiles [] s = Inr s"
| "reduceTokens E typeSchemas dataFiles (tok # rest) s =
     (case handleToken E typeSchemas dataFiles tok s of
        Inl e \<Rightarrow> Inl e
      | Inr s' \<Rightarrow> reduceTokens E typeSchemas dataFiles rest s')"
| "handleToken E typeSchemas dataFiles (Token mstType mstName children) s =
     (let ps = split_on CHR '':'' mstName;
          defName = js_string (part ps 0);
          schemaName = part ps 1;
          type = part ps 2
      in case resolveSchema typeSchemas mstType mstName schemaName type s of
           Inl e \<Rightarrow> Inl e
         | Inr s1 \<Rightarrow>
             if mstType = ''name''
               then handleName E typeSchemas dataFiles defName schemaName type s1
             else if mstType = ''>'' then handlePartial defName s1
             else if mstType = ''#'' then
               (case handleParsed E typeSchemas dataFiles children (this s1) of
                  Inl e \<Rightarrow> Inl e
                | Inr (items, t') \<Rightarrow> handleSection defName type items (s1\<lparr> this := t' \<rparr>))
             else if mstType = ''^'' then
               (case handleParsed E typeSchemas dataFiles children (this s1) of
                  Inl e \<Rightarrow> Inl e
                | Inr (items, t') \<Rightarrow> handleInverted defName type items (s1\<lparr> this := t' \<rparr>))
             else Inr s1)"


section \<open>Deriving the parameter schema of a template\<close>

text \<open>\<open>JSON.parse(JSON.stringify(v))\<close> for a value that is not \<open>undefined\<close>.\<close>

fun json_clone :: "json \<Rightarrow> json" where
  "json_clone (JArr xs) = JArr (map (\<lambda>x. if x = JUndef then JNull else json_clone x) xs)"
| "json_clone (JObj fs) =
     JObj (map (\<lambda>(k, x). (k, json_clone x)) (filter (\<lambda>(k, x). x \<noteq> JUndef) fs))"
| "json_clone v = v"

text \<open>
  \<open>getRefDefs\<close>. \<open>Object.values\<close> of a string gives its characters, which have no
  \<open>$ref\<close> and no \<open>items\<close>, so \<open>elems\<close> leaves them out.
\<close>

fun elems :: "json \<Rightarrow> json list" where
  "elems (JObj fs) = map snd fs"
| "elems (JArr xs) = xs"
| "elems v = []"

fun replace_first :: "string \<Rightarrow> string \<Rightarrow> string \<Rightarrow> string" where
  "replace_first pat rep [] = (if pat = [] then rep else [])"
| "replace_first pat rep (c # cs) =
     (if prefix pat (c # cs) then rep @ drop (length pat) (c # cs)
      else c # replace_first pat rep cs)"

definition cleanRef :: "json \<Rightarrow> error + string list" where
  "cleanRef ref =
     (if truthy ref then
        (case ref of JStr r \<Rightarrow> Inr [replace_first ''#/definitions/'' [] r]
         | _ \<Rightarrow> Inl (TypeError ''replace''))
      else Inr [])"

definition append_results ::
  "error + string list \<Rightarrow> error + string list \<Rightarrow> error + string list" where
  "append_results a b =
     (case a of Inl e \<Rightarrow> Inl e
      | Inr xs \<Rightarrow> (case b of Inl e \<Rightarrow> Inl e | Inr ys \<Rightarrow> Inr (xs @ ys)))"

function getRefDefs :: "json \<Rightarrow> error + string list"
  and getRefDefsProps :: "json list \<Rightarrow> error + string list"
  and getRefDefsSubs :: "json \<Rightarrow> error + string list"
where
  "getRefDefs (JObj fs) =
     append_results (cleanRef (jget (JObj fs) ''$ref''))
       (append_results (getRefDefsProps (elems (js_or (jget (JObj fs) ''properties'') (JArr []))))
          (append_results (getRefDefsSubs (js_or (jget (JObj fs) ''oneOf'') (JArr [])))
             (append_results (getRefDefsSubs (js_or (jget (JObj fs) ''allOf'') (JArr [])))
                (getRefDefsSubs (js_or (jget (JObj fs) ''anyOf'') (JArr []))))))"
| "getRefDefs JUndef = Inl (TypeError ''properties'')"
| "getRefDefs JNull = Inl (TypeError ''properties'')"
| "getRefDefs (JBool b) = Inr []"
| "getRefDefs (JNum n) = Inr []"
| "getRefDefs (JStr s) = Inr []"
| "getRefDefs (JArr xs) = Inr []"
| "getRefDefsProps [] = Inr []"
| "getRefDefsProps (prop # rest) =
     (if nullish prop then Inl (TypeError ''$ref'')
      else append_results (cleanRef (jget prop ''$ref''))
             (append_results
                (if truthy (jget prop ''items'') then getRefDefs (jget prop ''items'') else Inr [])
                (append_results (getRefDefs prop) (getRefDefsProps rest))))"
| "getRefDefsSubs (JArr []) = Inr []"
| "getRefDefsSubs (JArr (sub # rest)) =
     append_results (getRefDefs sub) (getRefDefsSubs (JArr rest))"
| "getRefDefsSubs (JObj fs) = Inl (TypeError ''forEach'')"
| "getRefDefsSubs (JStr s) = Inl (TypeError ''forEach'')"
| "getRefDefsSubs (JNum n) = Inl (TypeError ''forEach'')"
| "getRefDefsSubs (JBool b) = Inl (TypeError ''forEach'')"
| "getRefDefsSubs JNull = Inl (TypeError ''forEach'')"
| "getRefDefsSubs JUndef = Inl (TypeError ''forEach'')"
  by pat_completeness auto
termination
proof -
  have in_fs: "size v < size (JObj fs)" if "map_of fs k = Some v" for fs k and v :: json
  proof -
    from that have "(k, v) \<in> set fs" by (rule map_of_SomeD)
    then have "size_prod (\<lambda>_. 0) size (k, v) \<le> size_list (size_prod (\<lambda>_. 0) size) fs"
      by (simp add: size_list_estimation')
    then show ?thesis by simp
  qed
  have get_le: "size (jget v k) \<le> size v" for v k
  proof (cases "map_of (entries v) k")
    case None then show ?thesis by (simp add: jget_def)
  next
    case (Some x)
    show ?thesis
    proof (cases v)
      case (JObj fs) with Some in_fs [of fs k x] show ?thesis by (simp add: jget_def)
    next
      case (JArr xs)
      with Some have "x \<in> set xs" by (auto dest!: map_of_SomeD)
      then have "size x \<le> size_list size xs" by (simp add: size_list_estimation')
      with JArr Some show ?thesis by (simp add: jget_def)
    next
      case (JStr s)
      with Some have "\<exists>c. x = JStr [c]" by (auto dest!: map_of_SomeD)
      with JStr Some show ?thesis by (auto simp: jget_def)
    qed (use Some in \<open>simp_all add: jget_def\<close>)
  qed
  have get_lt: "size (jget (JObj fs) k) < size (JObj fs)" for fs k
    by (cases "map_of fs k") (use in_fs [of fs k] in \<open>auto simp: jget_def\<close>)
  have elems_le: "size_list size (elems v) \<le> size v" for v
  proof (cases v)
    case (JObj fs)
    have "size_list size (map snd fs) \<le> size_list (size_prod (\<lambda>_. 0) size) fs"
      by (induction fs) auto
    with JObj show ?thesis by simp
  qed simp_all
  show ?thesis
    apply (relation "measure (\<lambda>x. case x of
        Inl v \<Rightarrow> 2 * size v + 1
      | Inr (Inl xs) \<Rightarrow> 2 * size_list size xs
      | Inr (Inr v) \<Rightarrow> 2 * size v)")
    subgoal by simp
    subgoal for fs
      using elems_le [of "js_or (jget (JObj fs) ''properties'') (JArr [])"]
        get_lt [of fs "''properties''"]
      by (auto simp: js_or_def)
    subgoal for fs using get_lt [of fs "''oneOf''"] by (auto simp: js_or_def)
    subgoal for fs using get_lt [of fs "''allOf''"] by (auto simp: js_or_def)
    subgoal for fs using get_lt [of fs "''anyOf''"] by (auto simp: js_or_def)
    subgoal for p rest using get_le [of p "''items''"] by simp
    subgoal by simp
    subgoal by simp
    subgoal by simp
    subgoal by simp
    done
qed

text \<open>
  \<open>_cleanTemplateText\<close>: every match of \<open>/{{([_a-zA-Z0-9#^>/]+):.*?}}/g\<close> is replaced
  by \<open>{{$1}}\<close>. A match is \<open>{{\<close>, the longest run of name characters (the colon that
  must follow is not one of them), a colon, and the text up to the first \<open>}}\<close> on the
  same line.
\<close>

definition nameChar :: "char \<Rightarrow> bool" where
  "nameChar c =
     (c = CHR ''_''
      \<or> (of_char (CHR ''a'') \<le> (of_char c :: nat) \<and> (of_char c :: nat) \<le> of_char (CHR ''z''))
      \<or> (of_char (CHR ''A'') \<le> (of_char c :: nat) \<and> (of_char c :: nat) \<le> of_char (CHR ''Z''))
      \<or> (of_char (CHR ''0'') \<le> (of_char c :: nat) \<and> (of_char c :: nat) \<le> of_char (CHR ''9''))
      \<or> c \<in> set ''#^>/'')"

fun closeTag :: "string \<Rightarrow> string option" where
  "closeTag [] = None"
| "closeTag [c] = None"
| "closeTag (c # d # r) =
     (if c = CHR ''}'' \<and> d = CHR ''}'' then Some r
      else if c = CHR 0x0A \<or> c = CHR 0x0D then None
      else closeTag (d # r))"

definition matchTag :: "string \<Rightarrow> (string \<times> string) option" where
  "matchTag s =
     (case s of
        c # d # s1 \<Rightarrow>
          (if c = CHR ''{'' \<and> d = CHR ''{'' \<and> takeWhile nameChar s1 \<noteq> [] then
             (case dropWhile nameChar s1 of
                e # s3 \<Rightarrow>
                  (if e = CHR '':'' then map_option (Pair (takeWhile nameChar s1)) (closeTag s3)
                   else None)
              | [] \<Rightarrow> None)
           else None)
      | _ \<Rightarrow> None)"

function replaceTags :: "string \<Rightarrow> string" where
  "replaceTags [] = []"
| "replaceTags (c # cs) =
     (case matchTag (c # cs) of
        Some (name, rest) \<Rightarrow> ''{{'' @ name @ ''}}'' @ replaceTags rest
      | None \<Rightarrow> c # replaceTags cs)"
  by pat_completeness auto
termination
proof -
  have close_len: "closeTag s = Some r \<Longrightarrow> length r < length s" for s r
    by (induction s arbitrary: r rule: closeTag.induct) (auto split: if_splits)
  have match_len: "matchTag s = Some (n, r) \<Longrightarrow> length r < length s" for s n r
  proof -
    assume m: "matchTag s = Some (n, r)"
    then obtain c d s1 e s3 where s: "s = c # d # s1" and dw: "dropWhile nameChar s1 = e # s3"
      and cl: "closeTag s3 = Some r"
      by (auto simp: matchTag_def split: list.splits if_splits)
    have "length (dropWhile nameChar s1) \<le> length s1" by (rule length_dropWhile_le)
    with dw close_len [OF cl] s show ?thesis by simp
  qed
  show ?thesis
    by (relation "measure length") (auto dest: match_len)
qed

definition cleanTemplateText :: "json \<Rightarrow> error + string" where
  "cleanTemplateText text =
     (case text of JStr s \<Rightarrow> Inr (replaceTags s) | _ \<Rightarrow> Inl (TypeError ''replace''))"

text \<open>\<open>getParametersSchema()\<close>\<close>

fun getParametersSchema :: "Template \<Rightarrow> json" where
  "getParametersSchema (Template f one all any) =
     (let schema = assign (assign (JObj []) (parametersSchema f))
                     (JObj [(''title'', title f), (''description'', description f),
                            (''definitions'', definitions f)]);
          schema1 = (if length one > 0
                     then jset schema ''oneOf'' (JArr (map getParametersSchema one))
                     else schema);
          schema2 = (if length all > 0
                     then jset schema1 ''allOf'' (JArr (map getParametersSchema all))
                     else schema1)
      in if length any > 0
         then jset schema2 ''anyOf'' (JArr (map getParametersSchema any))
         else schema2)"

text \<open>\<open>_parametersSchemaFromTemplate\<close>, step by step.\<close>

fun collectExplicitDeps :: "(string \<times> json) list \<Rightarrow> tfields \<Rightarrow> error + tfields" where
  "collectExplicitDeps [] f = Inr f"
| "collectExplicitDeps ((prop, def) # rest) f =
     (if nullish def then Inl (TypeError ''dependencies'')
      else collectExplicitDeps rest
             (f\<lparr> explicitDeps :=
                    (if truthy (jget def ''dependencies'')
                     then jset (explicitDeps f) prop (jget def ''dependencies'')
                     else explicitDeps f),
                 definitions := jset (definitions f) prop (jdelete def ''dependencies'') \<rparr>))"

fun compilePartials ::
  "env \<Rightarrow> json \<Rightarrow> json \<Rightarrow> (string \<times> json) list \<Rightarrow> tfields \<Rightarrow> error + tfields" where
  "compilePartials E typeSchemas dataFiles [] f = Inr f"
| "compilePartials E typeSchemas dataFiles ((name, def) # rest) f =
     (if truthy (jget def ''template'') then
        (case Mustache_parse E (jget def ''template'') of
           Inl e \<Rightarrow> Inl e
         | Inr parsed \<Rightarrow>
        (case handleParsed E typeSchemas dataFiles parsed f of
           Inl e \<Rightarrow> Inl e
         | Inr (newDef, f1) \<Rightarrow>
        (case cleanTemplateText (jget def ''template'') of
           Inl e \<Rightarrow> Inl e
         | Inr text \<Rightarrow>
             compilePartials E typeSchemas dataFiles rest
               (f1\<lparr> typeDefinitions :=
                       jset (typeDefinitions f1) name (jdelete newDef ''template''),
                    partials := jset (partials f1) name (JStr text) \<rparr>))))
      else compilePartials E typeSchemas dataFiles rest
             (f\<lparr> typeDefinitions := jset (typeDefinitions f) name (json_clone def) \<rparr>))"

fun keyInXOf :: "string \<Rightarrow> Template \<Rightarrow> bool" where
  "keyInXOf key (Template f one all any) =
     list_ex (\<lambda>subTmpl.
                (truthy (jget (parametersSchema (fields_of subTmpl)) ''properties'')
                 \<and> jget (jget (parametersSchema (fields_of subTmpl)) ''properties'') key \<noteq> JUndef)
                \<or> keyInXOf key subTmpl)
       (one @ all @ any)"

definition emptyToObject :: "json \<Rightarrow> json" where
  "emptyToObject schema =
     (let schema1 = (if jget schema ''type'' = JStr ''string''
                        \<and> \<not> truthy (jget schema ''properties'')
                     then jset schema ''type'' (JStr ''object'') else schema)
      in if \<not> truthy (jget schema1 ''properties'')
         then jset schema1 ''properties'' (JObj []) else schema1)"

definition surfaceOverrides :: "Template \<Rightarrow> json \<Rightarrow> json" where
  "surfaceOverrides tmpl schema =
     foldl (\<lambda>ps (name, def).
              if \<not> truthy (jget (jget ps ''properties'') name) \<and> keyInXOf name tmpl
              then setProp ps name (assign (JObj []) def) else ps)
       schema (entries (definitions (fields_of tmpl)))"

definition pruneDefinitions :: "Template \<Rightarrow> error + Template" where
  "pruneDefinitions tmpl =
     (case getRefDefs (getParametersSchema tmpl) of
        Inl e \<Rightarrow> Inl e
      | Inr refDefs \<Rightarrow>
          Inr (Template
                 ((fields_of tmpl)\<lparr> definitions :=
                     foldl (\<lambda>kept key. if key \<in> set refDefs
                                        then jset kept key (jget (definitions (fields_of tmpl)) key)
                                        else kept)
                       (JObj []) (keys (definitions (fields_of tmpl))) \<rparr>)
                 (oneOf tmpl) (allOf tmpl) (anyOf tmpl)))"

text \<open>
  The first half: the definitions of the composed sub-templates are merged under the
  template's own, the explicit dependencies are set aside, and every definition that
  carries a template is inferred into a partial.
\<close>

definition preparePartials :: "env \<Rightarrow> json \<Rightarrow> json \<Rightarrow> Template \<Rightarrow> error + tfields" where
  "preparePartials E typeSchemas dataFiles tmpl =
     (case deepmerge_all (Some arrayMergeOverwrite)
             (map (\<lambda>sub. definitions (fields_of sub)) (oneOf tmpl @ allOf tmpl @ anyOf tmpl)
              @ [definitions (fields_of tmpl)]) of
        Inl e \<Rightarrow> Inl e
      | Inr defs \<Rightarrow>
     (case collectExplicitDeps (entries defs) ((fields_of tmpl)\<lparr> definitions := defs \<rparr>) of
        Inl e \<Rightarrow> Inl e
      | Inr f1 \<Rightarrow> compilePartials E typeSchemas dataFiles (entries (definitions f1)) f1))"

text \<open>
  The second half: the template's own text is inferred, an empty result becomes an
  object schema, overrides of merged-in templates are surfaced, and the definitions are
  collapsed and pruned.
\<close>

definition parametersSchemaFromTemplate ::
  "env \<Rightarrow> json \<Rightarrow> json \<Rightarrow> Template \<Rightarrow> error + Template" where
  "parametersSchemaFromTemplate E typeSchemas dataFiles tmpl =
     (case preparePartials E typeSchemas dataFiles tmpl of
        Inl e \<Rightarrow> Inl e
      | Inr f2 \<Rightarrow>
     (case Mustache_parse E (templateText f2) of
        Inl e \<Rightarrow> Inl e
      | Inr parsed \<Rightarrow>
     (case handleParsed E typeSchemas dataFiles parsed f2 of
        Inl e \<Rightarrow> Inl e
      | Inr (schema, f3) \<Rightarrow>
          pruneDefinitions
            (Template
               (f3\<lparr> parametersSchema :=
                      surfaceOverrides (Template f3 (oneOf tmpl) (allOf tmpl) (anyOf tmpl))
                        (emptyToObject schema),
                    definitions := typeDefinitions f3,
                    typeDefinitions := JUndef,
                    explicitDeps := JUndef \<rparr>)
               (oneOf tmpl) (allOf tmpl) (anyOf tmpl)))))"

section \<open>Loading tag-based text\<close>

text \<open>
  \<open>_recordSource\<close>: \<open>hash.update\<close> raises on a text that is not a string, before any
  field is written.
\<close>

definition recordSource :: "env \<Rightarrow> json \<Rightarrow> json \<Rightarrow> tfields \<Rightarrow> error + tfields" where
  "recordSource E srcType srcText f =
     (case sha256_hex E srcText of
        Inl e \<Rightarrow> Inl e
      | Inr digest \<Rightarrow>
          Inr (f\<lparr> sourceType := srcType, sourceText := srcText, sourceHash := JStr digest \<rparr>))"

definition validate :: "env \<Rightarrow> json \<Rightarrow> error + unit" where
  "validate E tmpldata =
     (case metaschema_errors E tmpldata of
        None \<Rightarrow> Inr ()
      | Some errors \<Rightarrow> Inl (TemplateInvalid (js_string (JSON_stringify2 E errors))))"

fun isComment :: "token \<Rightarrow> bool" where
  "isComment (Token mstType mstName children) = (mstType = ''!'')"

fun tokenType :: "token \<Rightarrow> string" where
  "tokenType (Token mstType mstName children) = mstType"

fun tokenText :: "token \<Rightarrow> string" where
  "tokenText (Token mstType mstName children) = mstName"

definition descriptionFromTemplate :: "env \<Rightarrow> tfields \<Rightarrow> error + tfields" where
  "descriptionFromTemplate E f =
     (case Mustache_parse E (templateText f) of
        Inl e \<Rightarrow> Inl e
      | Inr tokens \<Rightarrow>
          (case filter isComment tokens of
             [] \<Rightarrow> Inr f
           | comment # rest \<Rightarrow> Inr (f\<lparr> description := JStr (tokenText comment) \<rparr>)))"

definition createParametersValidator :: "env \<Rightarrow> Template \<Rightarrow> error + Template" where
  "createParametersValidator E tmpl =
     (case ajv_compile E (getParametersSchema tmpl) of
        Some e \<Rightarrow>
          Inl (ValidatorCompileFailed
                 (js_string (JSON_stringify2 E (getParametersSchema tmpl))) (message e))
      | None \<Rightarrow>
          Inr (Template ((fields_of tmpl)\<lparr> hasValidator := True \<rparr>)
                 (oneOf tmpl) (allOf tmpl) (anyOf tmpl)))"

text \<open>
  \<open>loadMst\<close>. The type schemas and data files are what the two providers deliver
  (\<open>{}\<close> without a provider); fetching them is outside the repository.
\<close>

definition loadMst :: "env \<Rightarrow> json \<Rightarrow> json \<Rightarrow> json \<Rightarrow> error + Template" where
  "loadMst E msttext typeSchemas dataFiles =
     (case validate E msttext of
        Inl e \<Rightarrow> Inl e
      | Inr u \<Rightarrow>
     (case recordSource E (JStr ''MST'') msttext newFields of
        Inl e \<Rightarrow> Inl e
      | Inr f1 \<Rightarrow>
     (case descriptionFromTemplate E (f1\<lparr> templateText := msttext \<rparr>) of
        Inl e \<Rightarrow> Inl e
      | Inr f2 \<Rightarrow>
     (case parametersSchemaFromTemplate E typeSchemas dataFiles (Template f2 [] [] []) of
        Inl e \<Rightarrow> Inl e
      | Inr tmpl \<Rightarrow> createParametersValidator E tmpl))))"

text \<open>\<open>loadMst(msttext).then(tmpl => tmpl.getParametersSchema())\<close>\<close>

definition loadedSchema :: "env \<Rightarrow> json \<Rightarrow> json \<Rightarrow> json \<Rightarrow> error + json" where
  "loadedSchema E msttext typeSchemas dataFiles =
     (case loadMst E msttext typeSchemas dataFiles of
        Inl e \<Rightarrow> Inl e
      | Inr tmpl \<Rightarrow> Inr (getParametersSchema tmpl))"


section \<open>Rendering\<close>

text \<open>The override of the engine's escaping function: \<open>Mustache.escape\<close>.\<close>

definition Mustache_escape :: "string \<Rightarrow> string" where
  "Mustache_escape text = text"

text \<open>
  The transform strategies. \<open>value.length && value.length > 0\<close> is read off arrays and
  strings, and off an object that holds a number under \<open>length\<close>.
\<close>

definition PlainTextTransformStrategy :: "json \<Rightarrow> json \<Rightarrow> json" where
  "PlainTextTransformStrategy schema value = value"

fun positiveLength :: "json \<Rightarrow> bool" where
  "positiveLength (JArr xs) = (xs \<noteq> [])"
| "positiveLength (JStr s) = (s \<noteq> [])"
| "positiveLength (JObj fs) = (case jget (JObj fs) ''length'' of JNum n \<Rightarrow> n > 0 | _ \<Rightarrow> False)"
| "positiveLength v = False"

definition JsonTransformStrategy :: "env \<Rightarrow> json \<Rightarrow> json \<Rightarrow> json" where
  "JsonTransformStrategy E schema value =
     (if jget schema ''type'' = JStr ''array'' \<and> \<not> truthy value
        then JSON_stringify E (JArr [])
      else if jget schema ''type'' = JStr ''array'' \<and> positiveLength value
              \<and> \<not> truthy (jget schema ''skip_xform'')
        then JSON_stringify E value
      else if jget schema ''type'' = JStr ''object'' \<and> \<not> truthy value
        then JSON_stringify E (JObj [])
      else if jget schema ''type'' = JStr ''object'' \<and> \<not> truthy (jget schema ''skip_xform'')
        then JSON_stringify E value
      else if jget schema ''format'' = JStr ''text'' \<and> truthy value
        then JSON_stringify E value
      else value)"

definition transformStrategies :: "env \<Rightarrow> json \<Rightarrow> (json \<Rightarrow> json \<Rightarrow> json) option" where
  "transformStrategies E mime =
     (if js_string mime = ''application/json'' then Some (JsonTransformStrategy E) else None)"

text \<open>The merge strategies.\<close>

definition PlainTextMergeStrategy :: "json \<Rightarrow> json \<Rightarrow> error + json" where
  "PlainTextMergeStrategy merged cur = Inr (JStr (js_string merged @ [CHR 0x0A] @ js_string cur))"

definition mergeLoaded :: "env \<Rightarrow> json \<Rightarrow> json \<Rightarrow> error + json" where
  "mergeLoaded E merged cur =
     (case yaml_load E merged of
        Inl e \<Rightarrow> Inl e
      | Inr x \<Rightarrow>
          (case yaml_load E cur of
             Inl e \<Rightarrow> Inl e
           | Inr y \<Rightarrow> deepmerge_js None x y))"

definition JsonMergeStrategy :: "env \<Rightarrow> json \<Rightarrow> json \<Rightarrow> error + json" where
  "JsonMergeStrategy E merged cur =
     (case mergeLoaded E merged cur of
        Inl e \<Rightarrow> Inl e
      | Inr m \<Rightarrow> Inr (JSON_stringify2 E m))"

definition YamlMergeStrategy :: "env \<Rightarrow> json \<Rightarrow> json \<Rightarrow> error + json" where
  "YamlMergeStrategy E merged cur =
     (case mergeLoaded E merged cur of
        Inl e \<Rightarrow> Inl e
      | Inr m \<Rightarrow> yaml_dump E m)"

definition mergeStrategies :: "env \<Rightarrow> json \<Rightarrow> (json \<Rightarrow> json \<Rightarrow> error + json) option" where
  "mergeStrategies E mime =
     (if js_string mime = ''application/json'' then Some (JsonMergeStrategy E)
      else if js_string mime = ''application/x-yaml'' then Some (YamlMergeStrategy E)
      else if js_string mime = ''application/yaml'' then Some (YamlMergeStrategy E)
      else if js_string mime = ''text/x-yaml'' then Some (YamlMergeStrategy E)
      else None)"

text \<open>The post-processing strategies; \<open>trim\<close> strips white space at both ends.\<close>

definition isSpace :: "char \<Rightarrow> bool" where
  "isSpace c = (c \<in> set [CHR 0x09, CHR 0x0A, CHR 0x0B, CHR 0x0C, CHR 0x0D, CHR 0x20, CHR 0xA0])"

definition js_trim :: "string \<Rightarrow> string" where
  "js_trim s = rev (dropWhile isSpace (rev (dropWhile isSpace s)))"

definition trimmedOrQuotes :: "json \<Rightarrow> error + json" where
  "trimmedOrQuotes rendered =
     (case rendered of
        JStr s \<Rightarrow> Inr (if js_trim s = [] then JStr [CHR 0x22, CHR 0x22] else JStr s)
      | _ \<Rightarrow> Inl (TypeError ''trim''))"

definition JsonPostProcessStrategy :: "env \<Rightarrow> json \<Rightarrow> error + json" where
  "JsonPostProcessStrategy E rendered =
     (case trimmedOrQuotes rendered of
        Inl e \<Rightarrow> Inl e
      | Inr r \<Rightarrow>
          (case yaml_load E r of
             Inl e \<Rightarrow> Inl e
           | Inr v \<Rightarrow> Inr (JSON_stringify2 E (js_or v (JStr [])))))"

definition YamlPostProcessStrategy :: "env \<Rightarrow> json \<Rightarrow> error + json" where
  "YamlPostProcessStrategy E rendered =
     (case trimmedOrQuotes rendered of
        Inl e \<Rightarrow> Inl e
      | Inr r \<Rightarrow>
          (case yaml_load E r of
             Inl e \<Rightarrow> Inl e
           | Inr v \<Rightarrow> yaml_dump E v))"

definition postProcessStrategies :: "env \<Rightarrow> json \<Rightarrow> (json \<Rightarrow> error + json) option" where
  "postProcessStrategies E mime =
     (if js_string mime = ''application/json'' then Some (JsonPostProcessStrategy E)
      else if js_string mime = ''application/x-yaml'' then Some (YamlPostProcessStrategy E)
      else if js_string mime = ''application/yaml'' then Some (YamlPostProcessStrategy E)
      else if js_string mime = ''text/x-yaml'' then Some (YamlPostProcessStrategy E)
      else None)"

text \<open>\<open>getCombinedParameters\<close>\<close>

fun typeDefaultsOf :: "(string \<times> json) list \<Rightarrow> json \<Rightarrow> error + json" where
  "typeDefaultsOf [] defaults = Inr defaults"
| "typeDefaultsOf ((key, value) # rest) defaults =
     (if nullish value then Inl (TypeError ''default'')
      else typeDefaultsOf rest
             (if jget value ''default'' \<noteq> JUndef
              then jset defaults key (jget value ''default'') else defaults))"

definition mathExprPairs :: "json \<Rightarrow> json" where
  "mathExprPairs defaults =
     foldl (\<lambda>pairs key. jset pairs key (jget defaults key)) (JObj [])
       (sort_key length (keys defaults))"

definition mathExprTokens :: "json \<Rightarrow> json" where
  "mathExprTokens pairs =
     JArr (map (\<lambda>key. JObj [(''type'', JNum 3), (''token'', JStr key), (''show'', JStr key),
                              (''value'', JStr key)])
             (keys pairs))"

fun mathExprResults ::
  "env \<Rightarrow> json \<Rightarrow> json \<Rightarrow> (string \<times> json) list \<Rightarrow> json \<Rightarrow> error + json" where
  "mathExprResults E tokens pairs [] results = Inr results"
| "mathExprResults E tokens pairs ((key, value) # rest) results =
     (if nullish value then Inl (TypeError ''mathExpression'')
      else if truthy (jget value ''mathExpression'') then
        (case mexp_eval E (jget value ''mathExpression'') tokens pairs of
           Inl e \<Rightarrow> Inl e
         | Inr result \<Rightarrow>
             (if jget value ''type'' = JStr ''string'' then
                (if nullish result then Inl (TypeError ''toString'')
                 else mathExprResults E tokens pairs rest
                        (jset results key (JStr (js_string result))))
              else mathExprResults E tokens pairs rest (jset results key result)))
      else mathExprResults E tokens pairs rest results)"

fun getCombinedParameters :: "env \<Rightarrow> Template \<Rightarrow> json \<Rightarrow> error + json"
  and getCombinedOf :: "env \<Rightarrow> Template list \<Rightarrow> json \<Rightarrow> error + json list"
where
  "getCombinedParameters E (Template f one all any) parameters0 =
     (let parameters = js_or parameters0 (JObj []);
          typeProps = jget (getParametersSchema (Template f one all any)) ''properties''
      in case (if truthy typeProps then typeDefaultsOf (entries typeProps) (JObj [])
               else Inr typeProps) of
           Inl e \<Rightarrow> Inl e
         | Inr typeDefaults \<Rightarrow>
        (case getCombinedOf E (one @ all @ any) parameters of
           Inl e \<Rightarrow> Inl e
         | Inr mergedDefaults \<Rightarrow>
        (case deepmerge_all (Some arrayMergeOverwrite)
                (mergedDefaults
                 @ [js_or typeDefaults (JObj []), defaultParameters f, parameters]) of
           Inl e \<Rightarrow> Inl e
         | Inr defaults \<Rightarrow>
        (case (if truthy typeProps
               then mathExprResults E (mathExprTokens (mathExprPairs defaults))
                      (mathExprPairs defaults) (entries typeProps) (JObj [])
               else Inr typeProps) of
           Inl e \<Rightarrow> Inl e
         | Inr results \<Rightarrow> Inr (assign defaults results)))))"
| "getCombinedOf E [] parameters = Inr []"
| "getCombinedOf E (tmpl # rest) parameters =
     (case getCombinedParameters E tmpl parameters of
        Inl e \<Rightarrow> Inl e
      | Inr combined \<Rightarrow>
          (case getCombinedOf E rest parameters of
             Inl e \<Rightarrow> Inl e
           | Inr others \<Rightarrow> Inr (combined # others)))"

text \<open>\<open>validateParameters\<close>\<close>

definition validateParameters :: "env \<Rightarrow> Template \<Rightarrow> json \<Rightarrow> error + unit" where
  "validateParameters E tmpl parameters =
     (case getCombinedParameters E tmpl parameters of
        Inl e \<Rightarrow> Inl e
      | Inr combParams \<Rightarrow>
          if \<not> hasValidator (fields_of tmpl) then Inl (TypeError ''_parametersValidator'')
          else (case ajv_validate E (getParametersSchema tmpl) combParams of
                  None \<Rightarrow> Inr ()
                | Some errors \<Rightarrow>
                    Inl (ParametersFailedValidation
                           (js_string (JSON_stringify2 E parameters))
                           (js_string (JSON_stringify2 E errors)))))"

text \<open>\<open>transformParameters\<close>\<close>

definition transformParameters :: "env \<Rightarrow> Template \<Rightarrow> json \<Rightarrow> json" where
  "transformParameters E tmpl parameters =
     (let schema = getParametersSchema tmpl;
          transform = (case transformStrategies E (contentType (fields_of tmpl)) of
                         Some strategy \<Rightarrow> strategy
                       | None \<Rightarrow> PlainTextTransformStrategy)
      in foldl (\<lambda>xf key.
                  if truthy (jget schema ''properties'')
                     \<and> truthy (jget (jget schema ''properties'') key)
                  then jset xf key
                         (transform (jget (jget schema ''properties'') key) (jget parameters key))
                  else jset xf key (jget parameters key))
           (JObj []) (keys parameters))"

text \<open>
  \<open>render\<close>. The rendered fragments are reduced from the first one; an empty fragment
  is skipped.
\<close>

fun lengthIsZero :: "json \<Rightarrow> error + bool" where
  "lengthIsZero JUndef = Inl (TypeError ''length'')"
| "lengthIsZero JNull = Inl (TypeError ''length'')"
| "lengthIsZero (JStr s) = Inr (s = [])"
| "lengthIsZero (JArr xs) = Inr (xs = [])"
| "lengthIsZero (JObj fs) = Inr (jget (JObj fs) ''length'' = JNum 0)"
| "lengthIsZero v = Inr False"

fun mergeTexts :: "(json \<Rightarrow> json \<Rightarrow> error + json) \<Rightarrow> json \<Rightarrow> json list \<Rightarrow> error + json" where
  "mergeTexts mergeStrategy merged [] = Inr merged"
| "mergeTexts mergeStrategy merged (cur # rest) =
     (case lengthIsZero cur of
        Inl e \<Rightarrow> Inl e
      | Inr True \<Rightarrow> mergeTexts mergeStrategy merged rest
      | Inr False \<Rightarrow>
          (case lengthIsZero merged of
             Inl e \<Rightarrow> Inl e
           | Inr True \<Rightarrow> mergeTexts mergeStrategy cur rest
           | Inr False \<Rightarrow>
               (case mergeStrategy merged cur of
                  Inl e \<Rightarrow> Inl e
                | Inr m \<Rightarrow> mergeTexts mergeStrategy m rest)))"

definition reduceTexts :: "(json \<Rightarrow> json \<Rightarrow> error + json) \<Rightarrow> json list \<Rightarrow> error + json" where
  "reduceTexts mergeStrategy templateTexts =
     (case templateTexts of
        [] \<Rightarrow> Inl (TypeError ''reduce'')
      | first # rest \<Rightarrow> mergeTexts mergeStrategy first rest)"

definition failedValidation :: "error \<Rightarrow> bool" where
  "failedValidation e = sublist ''failed validation'' (message e)"

fun render :: "env \<Rightarrow> Template \<Rightarrow> json \<Rightarrow> bool \<Rightarrow> error + json"
  and renderAllOf :: "env \<Rightarrow> Template list \<Rightarrow> json \<Rightarrow> error + json list"
  and renderCaught :: "env \<Rightarrow> Template list \<Rightarrow> json \<Rightarrow> error + json list"
where
  "render E (Template f one all any) parameters skipValidation =
     (case (if \<not> skipValidation
            then validateParameters E (Template f one all any) parameters else Inr ()) of
        Inl e \<Rightarrow> Inl e
      | Inr u \<Rightarrow>
     (case getCombinedParameters E (Template f one all any) parameters of
        Inl e \<Rightarrow> Inl e
      | Inr combParams \<Rightarrow>
     (case cleanTemplateText (js_or (templateText f) (JStr [])) of
        Inl e \<Rightarrow> Inl e
      | Inr text \<Rightarrow>
     (case renderAllOf E all combParams of
        Inl e \<Rightarrow> Inl e
      | Inr fromAllOf \<Rightarrow>
     (case renderCaught E any combParams of
        Inl e \<Rightarrow> Inl e
      | Inr fromAnyOf \<Rightarrow>
     (case renderCaught E one combParams of
        Inl e \<Rightarrow> Inl e
      | Inr fromOneOf \<Rightarrow>
     (case Mustache_render E Mustache_escape text
             (transformParameters E (Template f one all any) combParams) (partials f) of
        Inl e \<Rightarrow> Inl e
      | Inr own \<Rightarrow>
     (case reduceTexts
             (case mergeStrategies E (contentType f) of
                Some strategy \<Rightarrow> strategy
              | None \<Rightarrow> PlainTextMergeStrategy)
             (fromAllOf @ fromAnyOf @ fromOneOf @ [JStr own]) of
        Inl e \<Rightarrow> Inl e
      | Inr rendered \<Rightarrow>
          (case postProcessStrategies E (contentType f) of
             Some strategy \<Rightarrow> strategy rendered
           | None \<Rightarrow> Inr rendered)))))))))"
| "renderAllOf E [] combParams = Inr []"
| "renderAllOf E (tmpl # rest) combParams =
     (case render E tmpl combParams True of
        Inl e \<Rightarrow> Inl e
      | Inr text \<Rightarrow>
          (case renderAllOf E rest combParams of
             Inl e \<Rightarrow> Inl e
           | Inr texts \<Rightarrow> Inr (text # texts)))"
| "renderCaught E [] combParams = Inr []"
| "renderCaught E (tmpl # rest) combParams =
     (case render E tmpl combParams True of
        Inl e \<Rightarrow> (if \<not> failedValidation e then Inl e else renderCaught E rest combParams)
      | Inr text \<Rightarrow>
          (case renderCaught E rest combParams of
             Inl e \<Rightarrow> Inl e
           | Inr texts \<Rightarrow> Inr (text # texts)))"

section \<open>The reference stage of a structured load\<close>

text \<open>
  The first link of the promise chain of \<open>loadYaml\<close>: resolve the references of the
  document when there is a root directory and no template provider, refuse a path
  outside the root directory, bundle, and wrap whatever failed. The reference parser is
  outside the repository: the outcomes of its two operations are parameters, and the
  operations that were started are returned along with the result, in order.
\<close>

datatype refcall = ResolveCall | BundleCall

fun checkRefs :: "env \<Rightarrow> string \<Rightarrow> string list \<Rightarrow> error + unit" where
  "checkRefs E rootDir [] = Inr ()"
| "checkRefs E rootDir (ref # rest) =
     (if prefix ''..'' (path_relative E rootDir ref) then Inl (PathTraversal ref)
      else checkRefs E rootDir rest)"

definition loadYamlReferences ::
  "env \<Rightarrow> string \<Rightarrow> bool \<Rightarrow> error + string list \<Rightarrow> error option
     \<Rightarrow> (error + unit) \<times> refcall list" where
  "loadYamlReferences E rootDir templateProvider resolved bundled =
     (let resolving = (rootDir \<noteq> [] \<and> \<not> templateProvider);
          calls = (if resolving then [ResolveCall] else [])
      in case (if resolving then resolved else Inr []) of
           Inl e \<Rightarrow> (Inl (ParsingReferencesFailed e), calls)
         | Inr refs \<Rightarrow>
             (case checkRefs E rootDir refs of
                Inl e \<Rightarrow> (Inl (ParsingReferencesFailed e), calls)
              | Inr u \<Rightarrow>
                  (case bundled of
                     Some e \<Rightarrow> (Inl (ParsingReferencesFailed e), calls @ [BundleCall])
                   | None \<Rightarrow> (Inr (), calls @ [BundleCall]))))"


section \<open>Example inputs\<close>

text \<open>A stand-in for the outside world on a handful of inputs.\<close>

definition ex_parse :: "json \<Rightarrow> error + token list" where
  "ex_parse text =
     (if text = JStr ''Hello'' then Inr [Token ''text'' ''Hello'' []]
      else if text = JStr ''{{! greeting }}Hello''
        then Inr [Token ''!'' ''greeting'' [], Token ''text'' ''Hello'' []]
      else if text = JStr ''Hello {{name}}''
        then Inr [Token ''text'' ''Hello '' [], Token ''name'' ''name'' []]
      else if text = JStr ''{{x}}{{^x}}{{/x}}''
        then Inr [Token ''name'' ''x'' [], Token ''^'' ''x'' []]
      else if text = JStr ''{{#s}}{{/s}}'' then Inr [Token ''#'' ''s'' []]
      else if text = JStr ''{{#s}}{{/s}}{{#s:sch:n}}{{/s:sch:n}}''
        then Inr [Token ''#'' ''s'' [], Token ''#'' ''s:sch:n'' []]
      else if text = JStr ''{{#failed validation}}''
        then Inl (ExternalError (''Unclosed section '' @ [CHR 0x22] @ ''failed validation''
                                  @ [CHR 0x22] @ '' at 22''))
      else Inl (ExternalError ''not tabulated''))"

fun ex_renderTokens :: "(string \<Rightarrow> string) \<Rightarrow> token list \<Rightarrow> json \<Rightarrow> string" where
  "ex_renderTokens esc [] view = []"
| "ex_renderTokens esc (Token mstType mstName children # rest) view =
     (if mstType = ''text'' then mstName
      else if mstType = ''name''
        then esc (if nullish (jget view mstName) then [] else js_string (jget view mstName))
      else [])
     @ ex_renderTokens esc rest view"

definition ex_env :: env where
  "ex_env = \<lparr>
     Mustache_parse = ex_parse,
     Mustache_render = (\<lambda>esc text view partials.
        case ex_parse (JStr text) of Inl e \<Rightarrow> Inl e
        | Inr tokens \<Rightarrow> Inr (ex_renderTokens esc tokens view)),
     base64_encode = (\<lambda>v. Inl (ExternalError ''not tabulated'')),
     base64_decode = (\<lambda>v. Inl (ExternalError ''not tabulated'')),
     mexp_eval = (\<lambda>expr tokens pairs. Inl (ExternalError ''not tabulated'')),
     metaschema_errors = (\<lambda>tmpldata. None),
     ajv_compile = (\<lambda>schema. None),
     ajv_validate = (\<lambda>schema parameters. None),
     yaml_load = (\<lambda>text. Inl (ExternalError ''not tabulated'')),
     yaml_dump = (\<lambda>v. Inl (ExternalError ''not tabulated'')),
     JSON_stringify = (\<lambda>v. JUndef),
     JSON_stringify2 = (\<lambda>v. JUndef),
     sha256_hex = (\<lambda>text. Inr (js_string text)),
     path_relative = (\<lambda>from to. to) \<rparr>"

definition ex_dst :: json where
  "ex_dst = JObj [(''type'', JStr ''object''),
     (''properties'', JObj [(''x'', JObj [(''type'', JStr ''string'')])])]"

definition ex_src :: json where
  "ex_src = JObj [(''type'', JStr ''object''),
     (''properties'', JObj [(''x'', JObj [(''type'', JStr ''boolean'')]),
                            (''y'', JObj [(''type'', JStr ''boolean'')])])]"

definition ex_typeSchemas :: json where
  "ex_typeSchemas = JObj [(''sch'', JObj [(''definitions'',
      JObj [(''n'', JObj [(''type'', JStr ''number'')])])])]"

definition ex_comment_template :: Template where
  "ex_comment_template =
     Template (newFields\<lparr> templateText := JStr ''{{! greeting }}Hello'' \<rparr>) [] [] []"

definition ex_section_state :: istate where
  "ex_section_state = \<lparr>
     acc = JObj [(''type'', JStr ''object''),
       (''properties'', JObj [(''s'', JObj [(''type'', JStr ''array''),
          (''items'', JObj [(''type'', JStr ''string'')]), (''skip_xform'', JBool True)])])],
     required = [JStr ''s''],
     dependencies = JObj [],
     this = newFields\<lparr> typeDefinitions := JObj [(''o'', JObj [(''type'', JStr ''object'')])] \<rparr> \<rparr>"

definition ex_size_fields :: tfields where
  "ex_size_fields = newFields\<lparr> definitions :=
     JObj [(''size'', JObj [(''type'', JStr ''integer''), (''default'', JNum 10)])] \<rparr>"

definition ex_object_items :: json where
  "ex_object_items = JObj [(''type'', JStr ''object''),
     (''properties'', JObj [(''y'', JObj [(''type'', JStr ''string'')])]),
     (''required'', JArr [JStr ''y''])]"

section \<open>Notions used in the statements\<close>

text \<open>Two states of a template's fields carry the same provenance.\<close>

definition sameSource :: "tfields \<Rightarrow> tfields \<Rightarrow> bool" where
  "sameSource f f' =
     (sourceType f' = sourceType f \<and> sourceText f' = sourceText f
      \<and> sourceHash f' = sourceHash f)"

text \<open>The error that \<open>validateParameters\<close> raises.\<close>

fun isParameterValidationError :: "error \<Rightarrow> bool" where
  "isParameterValidationError (ParametersFailedValidation parameters errors) = True"
| "isParameterValidationError e = False"

section \<open>Reading and writing properties\<close>

lemma jget_JObj: "jget (JObj fs) k = (case map_of fs k of Some x \<Rightarrow> x | None \<Rightarrow> JUndef)"
  by (simp add: jget_def)

lemma jget_jset_obj:
  "jget (jset (JObj fs) k x) k' = (if k' = k then x else jget (JObj fs) k')"
  by (simp add: jget_def update_conv')

lemma jget_jset_other: "k' \<noteq> k \<Longrightarrow> jget (jset t k x) k' = jget t k'"
  by (cases t) (simp_all add: jget_def update_conv')

lemma jget_foldl_jset_other:
  "p \<notin> fst ` set kvs \<Longrightarrow> jget (foldl (\<lambda>t (k, x). jset t k x) t kvs) p = jget t p"
proof (induction kvs arbitrary: t)
  case Nil
  then show ?case by simp
next
  case (Cons kv kvs)
  obtain k x where kv: "kv = (k, x)" by (cases kv)
  from Cons.prems kv have "p \<noteq> k" and "p \<notin> fst ` set kvs" by auto
  then show ?case using Cons.IH [of "jset t k x"] kv
    by (simp add: jget_jset_other)
qed

lemma jget_assign_other:
  "p \<notin> set (keys source) \<Longrightarrow> jget (assign t source) p = jget t p"
  unfolding assign_def keys_def by (rule jget_foldl_jset_other) simp

lemma keys_jset: "set (keys (jset t k x)) \<subseteq> insert k (set (keys t))"
  by (cases t) (auto simp: keys_def dom_update)

lemma jget_not_undef:
  "jget v k \<noteq> JUndef \<Longrightarrow> map_of (entries v) k = Some (jget v k)"
  by (simp add: jget_def split: option.splits)

lemma jget_truthy_container: "jget v k \<noteq> JUndef \<Longrightarrow> truthy v"
  by (cases v) (auto simp: jget_def)

section \<open>The anti-overwrite rule of the merge\<close>

lemma filter_fold_keys:
  "p \<in> set (keys (foldl (\<lambda>filtered (prop, propDef).
              if \<not> noOverwrite dst prop propDef then jset filtered prop propDef
              else filtered) kept kvs)) \<Longrightarrow>
   p \<in> set (keys kept) \<or> (\<exists>d. (p, d) \<in> set kvs \<and> \<not> noOverwrite dst p d)"
proof (induction kvs arbitrary: kept)
  case Nil
  then show ?case by simp
next
  case (Cons kv kvs)
  obtain k x where kv: "kv = (k, x)" by (cases kv)
  show ?case
  proof (cases "noOverwrite dst k x")
    case True
    with Cons.prems kv Cons.IH [of kept] show ?thesis by auto
  next
    case False
    with Cons.prems kv Cons.IH [of "jset kept k x"] keys_jset [of kept k x]
    show ?thesis by auto
  qed
qed

lemma filterProps_keys:
  "p \<in> set (keys (filterProps dst props)) \<Longrightarrow>
   \<exists>d. (p, d) \<in> set (entries props) \<and> \<not> noOverwrite dst p d"
  unfolding filterProps_def using filter_fold_keys [of p dst "JObj []" "entries props"]
  by (simp add: keys_def)

text \<open>
  Claim C2. When a source schema is merged into a destination schema, a destination
  property whose type is \<open>array\<close> or \<open>string\<close> is not overwritten by a source property
  of type \<open>boolean\<close> under the same name: after the merge the destination holds the very
  property it held before, so its type is still \<open>array\<close> or \<open>string\<close>. (The source's
  properties are an object: no name occurs twice.)
\<close>

theorem mergeSchemaInto_keeps_array_and_string:
  assumes merged: "mergeSchemaInto dst src dstDeps = Inr (dst', src', dstDeps')"
    and dist: "distinct (keys (jget src ''properties''))"
    and dty: "jget (jget (jget dst ''properties'') p) ''type'' = JStr ''array''
            \<or> jget (jget (jget dst ''properties'') p) ''type'' = JStr ''string''"
    and sty: "jget (jget (jget src ''properties'') p) ''type'' = JStr ''boolean''"
  shows "jget (jget dst' ''properties'') p = jget (jget dst ''properties'') p
       \<and> jget (jget (jget dst' ''properties'') p) ''type'' \<noteq> JStr ''boolean''"
proof -
  let ?P = "jget src ''properties''"
  let ?D = "jget dst ''properties''"
  let ?F = "filterProps dst ?P"
  have pd: "jget ?P p \<noteq> JUndef" using sty by (auto simp: jget_def)
  then have tP: "truthy ?P" by (rule jget_truthy_container)
  have mp: "map_of (entries ?P) p = Some (jget ?P p)" using pd by (rule jget_not_undef)
  have dp: "jget ?D p \<noteq> JUndef" using dty by (auto simp: jget_def)
  then have tD: "truthy ?D" by (rule jget_truthy_container)
  have tDp: "truthy (jget ?D p)"
    using dty jget_truthy_container [of "jget ?D p" "''type''"] by auto
  have no: "noOverwrite dst p (jget ?P p)"
    using tD tDp dty sty by (auto simp: noOverwrite_def)
  have notin: "p \<notin> set (keys ?F)"
  proof
    assume "p \<in> set (keys ?F)"
    then obtain d where d: "(p, d) \<in> set (entries ?P)" "\<not> noOverwrite dst p d"
      using filterProps_keys by blast
    from dist have "distinct (map fst (entries ?P))" by (simp add: keys_def)
    with d(1) have "map_of (entries ?P) p = Some d" by simp
    with mp have "d = jget ?P p" by simp
    with d(2) no show False by simp
  qed
  have nn: "\<not> nullish src" using tP by (cases src) (auto simp: jget_def)
  have nnD: "\<not> nullish ?D" using tD by (cases ?D) auto
  from merged nn tP nnD have dst': "dst' = jset dst ''properties'' (assign ?D ?F)"
    by (simp add: mergeSchemaInto_def Let_def)
  have same: "jget (jget dst' ''properties'') p = jget ?D p"
  proof (cases dst)
    case (JObj fs)
    have "jget (jset (JObj fs) ''properties'' (assign ?D ?F)) ''properties'' = assign ?D ?F"
      by (rule trans [OF jget_jset_obj]) simp
    then have "jget dst' ''properties'' = assign ?D ?F"
      using dst' JObj by simp
    then show ?thesis using notin by (simp add: jget_assign_other)
  qed (simp_all add: dst')
  with dty show ?thesis by auto
qed

theorem mergeSchemaInto_keeps_array_and_string_witness:
  "mergeSchemaInto ex_dst ex_src (JObj []) =
     Inr (JObj [(''type'', JStr ''object''),
            (''properties'', JObj [(''x'', JObj [(''type'', JStr ''string'')]),
                                   (''y'', JObj [(''type'', JStr ''boolean'')])])],
          JObj [(''type'', JStr ''object''),
            (''properties'', JObj [(''y'', JObj [(''type'', JStr ''boolean'')])])],
          JObj [])
   \<and> jget (jget (JObj [(''type'', JStr ''object''),
            (''properties'', JObj [(''x'', JObj [(''type'', JStr ''string'')]),
                                   (''y'', JObj [(''type'', JStr ''boolean'')])])])
          ''properties'') ''x''
     = jget (jget ex_dst ''properties'') ''x''"
proof -
  have m: "mergeSchemaInto ex_dst ex_src (JObj []) =
     Inr (JObj [(''type'', JStr ''object''),
            (''properties'', JObj [(''x'', JObj [(''type'', JStr ''string'')]),
                                   (''y'', JObj [(''type'', JStr ''boolean'')])])],
          JObj [(''type'', JStr ''object''),
            (''properties'', JObj [(''y'', JObj [(''type'', JStr ''boolean'')])])],
          JObj [])"
    by code_simp
  have d: "distinct (keys (jget ex_src ''properties''))" by code_simp
  have t1: "jget (jget (jget ex_dst ''properties'') ''x'') ''type'' = JStr ''array''
            \<or> jget (jget (jget ex_dst ''properties'') ''x'') ''type'' = JStr ''string''"
    by code_simp
  have t2: "jget (jget (jget ex_src ''properties'') ''x'') ''type'' = JStr ''boolean''"
    by code_simp
  from mergeSchemaInto_keeps_array_and_string [OF m d t1 t2] m show ?thesis by simp
qed

section \<open>Templates without properties\<close>

lemma finishParsed_no_properties:
  assumes "keys (jget (acc s) ''properties'') = []
         \<or> (keys (jget (acc s) ''properties'') = [''.'']
            \<and> truthy (jget (jget (acc s) ''properties'') ''.''))"
  shows "finishParsed s = Inr (stringSchema, this s)"
  using assms by (auto simp: finishParsed_def Let_def)

lemma setProp_shape:
  "setProp (JObj [(''type'', x), (''properties'', P)]) name v =
     JObj [(''type'', x), (''properties'', jset P name v)]"
  by (simp add: setProp_def jget_def)

lemma surface_fold_shape:
  "\<exists>P'. foldl (\<lambda>ps (name, def).
              if \<not> truthy (jget (jget ps ''properties'') name) \<and> keyInXOf name tmpl
              then setProp ps name (assign (JObj []) def) else ps)
       (JObj [(''type'', x), (''properties'', P)]) kvs
     = JObj [(''type'', x), (''properties'', P')]"
proof (induction kvs arbitrary: P)
  case Nil
  then show ?case by simp
next
  case (Cons kv kvs)
  obtain name d where kv: "kv = (name, d)" by (cases kv)
  show ?case
    using Cons.IH [of P] Cons.IH [of "jset P name (assign (JObj []) d)"] kv
    by (simp add: setProp_shape)
qed

lemma surfaceOverrides_shape:
  "\<exists>P'. surfaceOverrides tmpl (JObj [(''type'', x), (''properties'', P)])
     = JObj [(''type'', x), (''properties'', P')]"
  unfolding surfaceOverrides_def by (rule surface_fold_shape)

lemma emptyToObject_stringSchema:
  "emptyToObject stringSchema = JObj [(''type'', JStr ''object''), (''properties'', JObj [])]"
  by (simp add: emptyToObject_def stringSchema_def jget_def Let_def)

lemma getParametersSchema_type_shape:
  assumes "parametersSchema (fields_of tmpl) = JObj [(''type'', x), (''properties'', P)]"
  shows "jget (getParametersSchema tmpl) ''type'' = x"
proof -
  obtain f one all any where t: "tmpl = Template f one all any" by (cases tmpl)
  with assms have ps: "parametersSchema f = JObj [(''type'', x), (''properties'', P)]" by simp
  show ?thesis unfolding t
    by (simp add: ps assign_def jget_def Let_def)
qed

lemma pruneDefinitions_schema:
  "pruneDefinitions tmpl = Inr tmpl' \<Longrightarrow>
   parametersSchema (fields_of tmpl') = parametersSchema (fields_of tmpl)"
  by (auto simp: pruneDefinitions_def split: sum.splits)

lemma handleToken_skip:
  "tokenType tok \<notin> set [''name'', ''#'', ''>'', ''^''] \<Longrightarrow>
   handleToken E typeSchemas dataFiles tok s = Inr s"
  by (cases tok) (simp add: resolveSchema_def Let_def)

lemma reduceTokens_skip:
  "\<forall>tok \<in> set parsed. tokenType tok \<notin> set [''name'', ''#'', ''>'', ''^''] \<Longrightarrow>
   reduceTokens E typeSchemas dataFiles parsed s = Inr s"
  by (induction parsed) (simp_all add: handleToken_skip del: handleToken.simps)

text \<open>
  Claim C1, as the code has it. When the reduction over a template's tokens ends with
  no property at all, or with the placeholder \<open>.\<close> as its only property,
  \<open>_handleParsed\<close> returns the bare schema of type \<open>string\<close>;
  \<open>_parametersSchemaFromTemplate\<close> then turns that schema into an object schema, so
  the schema that \<open>getParametersSchema()\<close> returns for the loaded template has type
  \<open>object\<close>, not \<open>string\<close>. A stream of comments and literal text is such a stream
  (\<open>reduceTokens_skip\<close>).
\<close>

theorem no_properties_schema_is_object:
  assumes prep: "preparePartials E typeSchemas dataFiles tmpl = Inr f2"
    and parse: "Mustache_parse E (templateText f2) = Inr parsed"
    and red: "reduceTokens E typeSchemas dataFiles parsed (initialState f2) = Inr s"
    and none: "keys (jget (acc s) ''properties'') = []
         \<or> (keys (jget (acc s) ''properties'') = [''.'']
            \<and> truthy (jget (jget (acc s) ''properties'') ''.''))"
    and loaded: "parametersSchemaFromTemplate E typeSchemas dataFiles tmpl = Inr tmpl'"
  shows "handleParsed E typeSchemas dataFiles parsed f2 = Inr (JObj [(''type'', JStr ''string'')], this s)
       \<and> jget (getParametersSchema tmpl') ''type'' = JStr ''object''"
proof -
  have hp: "handleParsed E typeSchemas dataFiles parsed f2 = Inr (stringSchema, this s)"
    using red finishParsed_no_properties [OF none] by simp
  let ?T = "Template (this s) (oneOf tmpl) (allOf tmpl) (anyOf tmpl)"
  obtain P' where P': "surfaceOverrides ?T (emptyToObject stringSchema)
      = JObj [(''type'', JStr ''object''), (''properties'', P')]"
    using surfaceOverrides_shape [of ?T "JStr ''object''" "JObj []"]
    by (auto simp: emptyToObject_stringSchema)
  from loaded prep parse hp
  have "pruneDefinitions (Template
               ((this s)\<lparr> parametersSchema := surfaceOverrides ?T (emptyToObject stringSchema),
                    definitions := typeDefinitions (this s),
                    typeDefinitions := JUndef,
                    explicitDeps := JUndef \<rparr>)
               (oneOf tmpl) (allOf tmpl) (anyOf tmpl)) = Inr tmpl'"
    by (simp add: parametersSchemaFromTemplate_def)
  from pruneDefinitions_schema [OF this] P'
  have "parametersSchema (fields_of tmpl') = JObj [(''type'', JStr ''object''), (''properties'', P')]"
    by simp
  from getParametersSchema_type_shape [OF this] hp show ?thesis
    by (simp add: stringSchema_def)
qed

theorem no_properties_schema_is_object_witness:
  "\<not> isl (parametersSchemaFromTemplate ex_env (JObj []) (JObj []) ex_comment_template)
   \<and> handleParsed ex_env (JObj []) (JObj [])
         [Token ''!'' ''greeting'' [], Token ''text'' ''Hello'' []]
         (projr (preparePartials ex_env (JObj []) (JObj []) ex_comment_template))
       = Inr (JObj [(''type'', JStr ''string'')],
              projr (preparePartials ex_env (JObj []) (JObj []) ex_comment_template))
   \<and> jget (getParametersSchema
              (projr (parametersSchemaFromTemplate ex_env (JObj []) (JObj []) ex_comment_template)))
         ''type'' = JStr ''object''"
proof -
  let ?f2 = "projr (preparePartials ex_env (JObj []) (JObj []) ex_comment_template)"
  let ?parsed = "[Token ''!'' ''greeting'' [], Token ''text'' ''Hello'' []]"
  let ?t = "projr (parametersSchemaFromTemplate ex_env (JObj []) (JObj []) ex_comment_template)"
  have "\<not> isl (preparePartials ex_env (JObj []) (JObj []) ex_comment_template)"
    by code_simp
  then have prep: "preparePartials ex_env (JObj []) (JObj []) ex_comment_template = Inr ?f2"
    by simp
  have parse: "Mustache_parse ex_env (templateText ?f2) = Inr ?parsed"
    by code_simp
  have red: "reduceTokens ex_env (JObj []) (JObj []) ?parsed (initialState ?f2)
               = Inr (initialState ?f2)"
    by (rule reduceTokens_skip) simp
  have none: "keys (jget (acc (initialState ?f2)) ''properties'') = []
         \<or> (keys (jget (acc (initialState ?f2)) ''properties'') = [''.'']
            \<and> truthy (jget (jget (acc (initialState ?f2)) ''properties'') ''.''))"
    by (simp add: initialState_def jget_def keys_def)
  have ok: "\<not> isl (parametersSchemaFromTemplate ex_env (JObj []) (JObj []) ex_comment_template)"
    by code_simp
  then have loaded:
    "parametersSchemaFromTemplate ex_env (JObj []) (JObj []) ex_comment_template = Inr ?t"
    by simp
  from no_properties_schema_is_object [OF prep parse red none loaded] ok
  show ?thesis by (simp add: initialState_def)
qed

text \<open>
  The template \<open>Hello\<close> has no tag; loaded, its schema is an object schema with an empty
  property map.
\<close>

theorem empty_template_schema_counterexample:
  "loadedSchema ex_env (JStr ''Hello'') (JObj []) (JObj []) =
     Inr (JObj [(''type'', JStr ''object''), (''properties'', JObj []),
                (''title'', JStr []), (''description'', JStr []),
                (''definitions'', JObj [])])
   \<and> jget (JObj [(''type'', JStr ''object''), (''properties'', JObj []),
                (''title'', JStr []), (''description'', JStr []),
                (''definitions'', JObj [])]) ''type'' \<noteq> JStr ''string''"
proof
  show "loadedSchema ex_env (JStr ''Hello'') (JObj []) (JObj []) =
     Inr (JObj [(''type'', JStr ''object''), (''properties'', JObj []),
                (''title'', JStr []), (''description'', JStr []),
                (''definitions'', JObj [])])"
    by code_simp
  show "jget (JObj [(''type'', JStr ''object''), (''properties'', JObj []),
                (''title'', JStr []), (''description'', JStr []),
                (''definitions'', JObj [])]) ''type'' \<noteq> JStr ''string''"
    by (simp add: jget_def)
qed

lemma placeholder_only_collapses:
  "handleParsed ex_env (JObj []) (JObj []) [Token ''name'' ''.'' []] newFields
     = Inr (JObj [(''type'', JStr ''string'')], newFields)"
  by code_simp

section \<open>Redeclaring a section\<close>

lemma pushDep_errors: "pushDep deps item defName = Inl e \<Longrightarrow> \<exists>m. e = TypeError m"
  by (auto simp: pushDep_def split: json.splits if_splits)

lemma pushDeps_errors: "pushDeps deps items defName = Inl e \<Longrightarrow> \<exists>m. e = TypeError m"
  by (induction deps items defName rule: pushDeps.induct)
     (auto split: sum.splits dest: pushDep_errors)

lemma mergeSchemaInto_errors:
  "mergeSchemaInto dst src deps = Inl e \<Longrightarrow> \<exists>m. e = TypeError m"
  by (auto simp: mergeSchemaInto_def Let_def split: if_splits)

lemma new_Set_errors: "new_Set v = Inl e \<Longrightarrow> \<exists>m. e = TypeError m"
  by (cases v) auto

lemma dedupKey_errors: "dedupKey v k = Inl e \<Longrightarrow> \<exists>m. e = TypeError m"
  by (auto simp: dedupKey_def split: if_splits sum.splits dest: new_Set_errors)

lemma dedupRequired_errors: "dedupRequired propDef = Inl e \<Longrightarrow> \<exists>m. e = TypeError m"
  by (auto simp: dedupRequired_def split: if_splits sum.splits dest: dedupKey_errors)

lemma handleSection_after_checks:
  assumes new: "sectionDef defName (sectionType (this s) type defName)
                  (sectionSchemaDef (this s) type defName) items = Inr newDef"
    and chk: "checkRedefinition defName (sectionType (this s) type defName)
                (existingDefOf (acc s) defName) newDef = Inr ()"
    and err: "handleSection defName type items s = Inl e"
  shows "\<exists>m. e = TypeError m"
  using err new chk
  by (auto simp: handleSection_def Let_def split: sum.splits if_splits prod.splits
      dest: pushDeps_errors mergeSchemaInto_errors dedupRequired_errors)

text \<open>
  Claim C3, as the code has it. Take a section whose type is one the engine supports
  (\<open>array\<close>, \<open>object\<close>, \<open>boolean\<close> or \<open>string\<close>) and whose fragment could be
  built from its inferred children. If the accumulator already holds a property of that
  name with a type different from the section's type, the section raises the
  definition-conflict error for the type. Otherwise, if both the existing property and
  the new fragment have \<open>items\<close> and their item types differ, it raises the
  definition-conflict error for the items. Otherwise it raises no definition-conflict
  error: what can still go wrong is a runtime \<open>TypeError\<close> on a malformed fragment.
\<close>

theorem section_redefinition:
  assumes new: "sectionDef defName (sectionType (this s) type defName)
                  (sectionSchemaDef (this s) type defName) items = Inr newDef"
  shows "(truthy (jget (existingDefOf (acc s) defName) ''type'')
          \<and> jget (existingDefOf (acc s) defName) ''type'' \<noteq> sectionType (this s) type defName \<longrightarrow>
            handleSection defName type items s
              = Inl (RedefinedType defName (sectionType (this s) type defName)
                       (jget (existingDefOf (acc s) defName) ''type'')))
       \<and> (\<not> (truthy (jget (existingDefOf (acc s) defName) ''type'')
              \<and> jget (existingDefOf (acc s) defName) ''type'' \<noteq> sectionType (this s) type defName)
          \<and> truthy (jget (existingDefOf (acc s) defName) ''items'')
          \<and> truthy (jget newDef ''items'')
          \<and> jget (jget (existingDefOf (acc s) defName) ''items'') ''type''
              \<noteq> jget (jget newDef ''items'') ''type'' \<longrightarrow>
            handleSection defName type items s
              = Inl (RedefinedItems defName (jget (jget newDef ''items'') ''type'')
                       (jget (jget (existingDefOf (acc s) defName) ''items'') ''type'')))
       \<and> (\<not> (truthy (jget (existingDefOf (acc s) defName) ''type'')
              \<and> jget (existingDefOf (acc s) defName) ''type'' \<noteq> sectionType (this s) type defName)
          \<and> \<not> (truthy (jget (existingDefOf (acc s) defName) ''items'')
                \<and> truthy (jget newDef ''items'')
                \<and> jget (jget (existingDefOf (acc s) defName) ''items'') ''type''
                    \<noteq> jget (jget newDef ''items'') ''type'') \<longrightarrow>
            (\<forall>e. handleSection defName type items s = Inl e \<longrightarrow> (\<exists>m. e = TypeError m)))"
proof (intro conjI impI)
  assume "truthy (jget (existingDefOf (acc s) defName) ''type'')
          \<and> jget (existingDefOf (acc s) defName) ''type'' \<noteq> sectionType (this s) type defName"
  then show "handleSection defName type items s
      = Inl (RedefinedType defName (sectionType (this s) type defName)
               (jget (existingDefOf (acc s) defName) ''type''))"
    using new by (simp add: handleSection_def Let_def checkRedefinition_def)
next
  assume "\<not> (truthy (jget (existingDefOf (acc s) defName) ''type'')
              \<and> jget (existingDefOf (acc s) defName) ''type'' \<noteq> sectionType (this s) type defName)
          \<and> truthy (jget (existingDefOf (acc s) defName) ''items'')
          \<and> truthy (jget newDef ''items'')
          \<and> jget (jget (existingDefOf (acc s) defName) ''items'') ''type''
              \<noteq> jget (jget newDef ''items'') ''type''"
  then show "handleSection defName type items s
              = Inl (RedefinedItems defName (jget (jget newDef ''items'') ''type'')
                       (jget (jget (existingDefOf (acc s) defName) ''items'') ''type''))"
    using new by (simp add: handleSection_def Let_def checkRedefinition_def)
next
  assume "\<not> (truthy (jget (existingDefOf (acc s) defName) ''type'')
              \<and> jget (existingDefOf (acc s) defName) ''type'' \<noteq> sectionType (this s) type defName)
          \<and> \<not> (truthy (jget (existingDefOf (acc s) defName) ''items'')
                \<and> truthy (jget newDef ''items'')
                \<and> jget (jget (existingDefOf (acc s) defName) ''items'') ''type''
                    \<noteq> jget (jget newDef ''items'') ''type'')"
  then have chk: "checkRedefinition defName (sectionType (this s) type defName)
                (existingDefOf (acc s) defName) newDef = Inr ()"
    by (auto simp: checkRedefinition_def)
  show "\<forall>e. handleSection defName type items s = Inl e \<longrightarrow> (\<exists>m. e = TypeError m)"
    using handleSection_after_checks [OF new chk] by blast
qed

theorem section_redefinition_witness:
  "handleSection ''s'' (JStr ''o'') stringSchema ex_section_state
     = Inl (RedefinedType ''s'' (JStr ''object'') (JStr ''array''))
   \<and> handleSection ''s'' JUndef ex_object_items ex_section_state
     = Inl (RedefinedItems ''s'' (JStr ''object'') (JStr ''string''))
   \<and> handleSection ''s'' JUndef stringSchema ex_section_state
     \<noteq> Inl (RedefinedType ''s'' (JStr ''array'') (JStr ''array''))"
proof (intro conjI)
  let ?n1 = "projr (sectionDef ''s'' (sectionType (this ex_section_state) (JStr ''o'') ''s'')
                  (sectionSchemaDef (this ex_section_state) (JStr ''o'') ''s'') stringSchema)"
  have "\<not> isl (sectionDef ''s'' (sectionType (this ex_section_state) (JStr ''o'') ''s'')
                  (sectionSchemaDef (this ex_section_state) (JStr ''o'') ''s'') stringSchema)"
    by code_simp
  then have new1: "sectionDef ''s'' (sectionType (this ex_section_state) (JStr ''o'') ''s'')
                  (sectionSchemaDef (this ex_section_state) (JStr ''o'') ''s'') stringSchema
               = Inr ?n1"
    by simp
  have a1: "truthy (jget (existingDefOf (acc ex_section_state) ''s'') ''type'')
          \<and> jget (existingDefOf (acc ex_section_state) ''s'') ''type''
              \<noteq> sectionType (this ex_section_state) (JStr ''o'') ''s''"
    by code_simp
  have v1: "sectionType (this ex_section_state) (JStr ''o'') ''s'' = JStr ''object''"
    "jget (existingDefOf (acc ex_section_state) ''s'') ''type'' = JStr ''array''"
    by code_simp+
  from section_redefinition [OF new1] a1 v1
  show "handleSection ''s'' (JStr ''o'') stringSchema ex_section_state
     = Inl (RedefinedType ''s'' (JStr ''object'') (JStr ''array''))"
    by simp
next
  let ?n2 = "projr (sectionDef ''s'' (sectionType (this ex_section_state) JUndef ''s'')
                  (sectionSchemaDef (this ex_section_state) JUndef ''s'') ex_object_items)"
  have "\<not> isl (sectionDef ''s'' (sectionType (this ex_section_state) JUndef ''s'')
                  (sectionSchemaDef (this ex_section_state) JUndef ''s'') ex_object_items)"
    by code_simp
  then have new2: "sectionDef ''s'' (sectionType (this ex_section_state) JUndef ''s'')
                  (sectionSchemaDef (this ex_section_state) JUndef ''s'') ex_object_items
               = Inr ?n2"
    by simp
  have a2: "\<not> (truthy (jget (existingDefOf (acc ex_section_state) ''s'') ''type'')
              \<and> jget (existingDefOf (acc ex_section_state) ''s'') ''type''
                  \<noteq> sectionType (this ex_section_state) JUndef ''s'')
          \<and> truthy (jget (existingDefOf (acc ex_section_state) ''s'') ''items'')
          \<and> truthy (jget ?n2 ''items'')
          \<and> jget (jget (existingDefOf (acc ex_section_state) ''s'') ''items'') ''type''
              \<noteq> jget (jget ?n2 ''items'') ''type''"
    by code_simp
  have v2: "jget (jget ?n2 ''items'') ''type'' = JStr ''object''"
    "jget (jget (existingDefOf (acc ex_section_state) ''s'') ''items'') ''type'' = JStr ''string''"
    by code_simp+
  from section_redefinition [OF new2] a2 v2
  show "handleSection ''s'' JUndef ex_object_items ex_section_state
     = Inl (RedefinedItems ''s'' (JStr ''object'') (JStr ''string''))"
    by simp
next
  let ?n3 = "projr (sectionDef ''s'' (sectionType (this ex_section_state) JUndef ''s'')
                  (sectionSchemaDef (this ex_section_state) JUndef ''s'') stringSchema)"
  have "\<not> isl (sectionDef ''s'' (sectionType (this ex_section_state) JUndef ''s'')
                  (sectionSchemaDef (this ex_section_state) JUndef ''s'') stringSchema)"
    by code_simp
  then have new3: "sectionDef ''s'' (sectionType (this ex_section_state) JUndef ''s'')
                  (sectionSchemaDef (this ex_section_state) JUndef ''s'') stringSchema
               = Inr ?n3"
    by simp
  have a3: "\<not> (truthy (jget (existingDefOf (acc ex_section_state) ''s'') ''type'')
              \<and> jget (existingDefOf (acc ex_section_state) ''s'') ''type''
                  \<noteq> sectionType (this ex_section_state) JUndef ''s'')
          \<and> \<not> (truthy (jget (existingDefOf (acc ex_section_state) ''s'') ''items'')
                \<and> truthy (jget ?n3 ''items'')
                \<and> jget (jget (existingDefOf (acc ex_section_state) ''s'') ''items'') ''type''
                    \<noteq> jget (jget ?n3 ''items'') ''type'')"
    by code_simp
  from section_redefinition [OF new3] a3
  have "\<forall>e. handleSection ''s'' JUndef stringSchema ex_section_state = Inl e
          \<longrightarrow> (\<exists>m. e = TypeError m)"
    by blast
  then show "handleSection ''s'' JUndef stringSchema ex_section_state
     \<noteq> Inl (RedefinedType ''s'' (JStr ''array'') (JStr ''array''))"
    by auto
qed

text \<open>
  A section \<open>s\<close> is declared as an array and declared again under a type definition of
  type \<open>number\<close>: the error is the one for an unsupported section type, which the source
  raises before it compares the types.
\<close>

theorem section_redefinition_counterexample:
  "loadedSchema ex_env (JStr ''{{#s}}{{/s}}'') ex_typeSchemas (JObj []) =
     Inr (JObj [(''type'', JStr ''object''),
        (''properties'', JObj [(''s'', JObj [(''type'', JStr ''array''),
              (''items'', JObj [(''type'', JStr ''string'')]),
              (''skip_xform'', JBool True)])]),
        (''required'', JArr [JStr ''s'']), (''title'', JStr []),
        (''description'', JStr []), (''definitions'', JObj [])])
   \<and> loadedSchema ex_env (JStr ''{{#s}}{{/s}}{{#s:sch:n}}{{/s:sch:n}}'') ex_typeSchemas (JObj [])
     = Inl (UnsupportedSectionType ''s'' (JStr ''number''))"
  by (rule conjI; code_simp)

section \<open>Required names\<close>

lemma set_set_add: "set (set_add x xs) = insert x (set xs)"
  by (auto simp: set_add_def)

lemma foldl_jset_obj:
  "\<exists>fs'. foldl (\<lambda>t (k, x). jset t k x) (JObj fs) kvs = JObj fs'"
  by (induction kvs arbitrary: fs) auto

lemma assign_obj: "\<exists>fs'. assign (JObj fs) source = JObj fs'"
  unfolding assign_def by (rule foldl_jset_obj)

lemma primitiveDef_obj: "\<exists>fs. primitiveDef typeSchemas schemaName defType = JObj fs"
  using assign_obj [of "[]"] by (auto simp: primitiveDef_def)

lemma nameDef_obj: "\<exists>fs. nameDef typeSchemas schemaName defType defName t = JObj fs"
proof -
  obtain fs where p: "primitiveDef typeSchemas schemaName defType = JObj fs"
    using primitiveDef_obj by blast
  show ?thesis using assign_obj [of fs] by (auto simp: nameDef_def p)
qed

lemma jget_jdelete:
  "jget (jdelete (JObj fs) k) k' = (if k' = k then JUndef else jget (JObj fs) k')"
  by (simp add: jget_def delete_conv')

lemma mathPull_keeps:
  assumes "mathPull m kvs props req = Inr (props', req')" and "truthy (jget props k)"
  shows "(JStr k \<in> set req') = (JStr k \<in> set req)"
  using assms
proof (induction m kvs props req rule: mathPull.induct)
  case (1 m props req)
  then show ?case by simp
next
  case (2 m key defProp rest props req)
  show ?case
  proof (cases "truthy (jget props key)")
    case True
    with 2 show ?thesis by simp
  next
    case False
    with "2.prems"(2) have ne: "k \<noteq> key" by auto
    show ?thesis
    proof (cases "js_includes m key")
      case (Inl e)
      with False "2.prems" show ?thesis by simp
    next
      case (Inr b)
      show ?thesis
      proof (cases b)
        case True
        have t: "truthy (jget (jset props key (assign (JObj []) defProp)) k)"
          using ne "2.prems"(2) by (simp add: jget_jset_other)
        have m: "mathPull m rest (jset props key (assign (JObj []) defProp))
                   (set_add (JStr key) req) = Inr (props', req')"
          using "2.prems"(1) False Inr True by simp
        have "(JStr k \<in> set req') = (JStr k \<in> set (set_add (JStr key) req))"
          using "2.IH" False Inr True m t by blast
        with ne show ?thesis by (simp add: set_set_add)
      next
        case F: False
        have m: "mathPull m rest props req = Inr (props', req')"
          using "2.prems"(1) False Inr F by simp
        show ?thesis using "2.IH" False Inr F m "2.prems"(2) by blast
      qed
    qed
  qed
qed

lemma isPropRequired_cong_obj:
  "truthy (infoConst (JObj fs))" "truthy (defaultHidden (JObj fs))"
  by (simp_all add: infoConst_def defaultHidden_def)

lemma setProp_get:
  assumes "isObject schema" "isObject (jget schema ''properties'')"
  shows "jget (jget (setProp schema name v) ''properties'') name = v"
proof -
  obtain fs where s: "schema = JObj fs" using assms(1) by (cases schema) auto
  obtain ps where p: "jget (JObj fs) ''properties'' = JObj ps"
    using assms(2) s by (cases "jget (JObj fs) ''properties''") auto
  show ?thesis unfolding setProp_def s p
    by (simp add: jget_def update_conv')
qed

lemma setProp_obj:
  assumes "isObject schema" "isObject (jget schema ''properties'')"
  shows "isObject (setProp schema name v) \<and> isObject (jget (setProp schema name v) ''properties'')"
proof -
  obtain fs where s: "schema = JObj fs" using assms(1) by (cases schema) auto
  obtain ps where p: "jget (JObj fs) ''properties'' = JObj ps"
    using assms(2) s by (cases "jget (JObj fs) ''properties''") auto
  show ?thesis unfolding setProp_def s p
    by (simp add: jget_def update_conv')
qed

lemma handleName_required:
  assumes ok: "handleName E typeSchemas dataFiles defName schemaName type s = Inr s'"
    and obj: "isObject (acc s)" "isObject (jget (acc s) ''properties'')"
  shows "(JStr defName \<in> set (required s')) =
         (JStr defName \<in> set (required s)
          \<or> isPropRequired (nameDef typeSchemas schemaName (js_or type (JStr ''string''))
                              defName (this s)))"
proof -
  let ?d = "nameDef typeSchemas schemaName (js_or type (JStr ''string'')) defName (this s)"
  let ?acc0 = "setProp (acc s) defName ?d"
  let ?r0 = "if isPropRequired ?d then set_add (JStr defName) (required s) else required s"
  let ?p1 = "infoConst ?d"
  let ?p2 = "if truthy (jget ?p1 ''mathExpression'') then defaultHidden ?p1 else ?p1"
  have r0: "(JStr defName \<in> set ?r0) = (JStr defName \<in> set (required s) \<or> isPropRequired ?d)"
    by (simp add: set_set_add)
  obtain fs where d: "?d = JObj fs" using nameDef_obj by blast
  have tp2: "truthy ?p2"
    by (simp add: d infoConst_def defaultHidden_def)
  have acc0: "isObject ?acc0 \<and> isObject (jget ?acc0 ''properties'')"
    using setProp_obj [OF obj] by simp
  have tget: "truthy (jget (jget (setProp ?acc0 defName ?p2) ''properties'') defName)"
    using setProp_get [of ?acc0 defName ?p2] acc0 tp2 by simp
  show ?thesis
  proof (cases "truthy (jget ?p1 ''mathExpression'')")
    case True
    with ok obtain props1 required1 where
      mp: "mathPull (jget ?p1 ''mathExpression'') (entries (typeDefinitions (this s)))
             (jget (setProp ?acc0 defName ?p2) ''properties'') ?r0 = Inr (props1, required1)"
      and r: "required s' = required1"
      by (auto simp: handleName_def Let_def split: if_splits sum.splits prod.splits)
    from mathPull_keeps [OF mp tget] r r0 show ?thesis by simp
  next
    case False
    with ok have "required s' = ?r0"
      by (auto simp: handleName_def Let_def split: if_splits sum.splits prod.splits)
    with r0 show ?thesis by simp
  qed
qed

text \<open>
  Claim C4, as the code has it. A variable token adds its name to \<open>required\<close> if and
  only if the fragment \<open>d\<close> assembled for it (the primitive or type-schema fragment with
  the author's definition on top) passes \<open>_isPropRequired\<close>: its format is neither
  \<open>hidden\<close> nor \<open>info\<close>, its \<open>mathExpression\<close> and \<open>dataFile\<close> are absent or empty,
  and it has no \<open>default\<close>. So a variable whose fragment carries a default is not added
  by its token, and the same fragment with the default removed passes the test exactly
  when the other three conditions hold. (The accumulator is an object with a
  \<open>properties\<close> object, as the reduction keeps it.)
\<close>

theorem variable_required_iff:
  assumes ok: "handleName E typeSchemas dataFiles defName schemaName type s = Inr s'"
    and obj: "isObject (acc s)" "isObject (jget (acc s) ''properties'')"
    and d: "d = nameDef typeSchemas schemaName (js_or type (JStr ''string'')) defName (this s)"
  shows "(JStr defName \<in> set (required s')) = (JStr defName \<in> set (required s) \<or> isPropRequired d)
       \<and> isPropRequired d =
           (jget d ''format'' \<noteq> JStr ''hidden'' \<and> jget d ''format'' \<noteq> JStr ''info''
            \<and> \<not> truthy (jget d ''mathExpression'') \<and> \<not> truthy (jget d ''dataFile'')
            \<and> jget d ''default'' = JUndef)
       \<and> (jget d ''default'' \<noteq> JUndef \<longrightarrow>
             \<not> isPropRequired d \<and> (JStr defName \<notin> set (required s) \<longrightarrow> JStr defName \<notin> set (required s')))
       \<and> isPropRequired (jdelete d ''default'') =
           (jget d ''format'' \<noteq> JStr ''hidden'' \<and> jget d ''format'' \<noteq> JStr ''info''
            \<and> \<not> truthy (jget d ''mathExpression'') \<and> \<not> truthy (jget d ''dataFile''))"
proof -
  have req: "(JStr defName \<in> set (required s')) = (JStr defName \<in> set (required s) \<or> isPropRequired d)"
    unfolding d by (rule handleName_required [OF ok obj])
  obtain fs where fs: "d = JObj fs" unfolding d using nameDef_obj by blast
  have del: "isPropRequired (jdelete d ''default'') =
           (jget d ''format'' \<noteq> JStr ''hidden'' \<and> jget d ''format'' \<noteq> JStr ''info''
            \<and> \<not> truthy (jget d ''mathExpression'') \<and> \<not> truthy (jget d ''dataFile''))"
    unfolding fs by (simp add: isPropRequired_def jget_def delete_conv')
  show ?thesis using req del by (auto simp: isPropRequired_def)
qed

theorem variable_required_iff_witness:
  "\<not> isl (handleName ex_env (JObj []) (JObj []) ''size'' JUndef JUndef
             (initialState ex_size_fields))
   \<and> jget (nameDef (JObj []) JUndef (JStr ''string'') ''size'' ex_size_fields) ''default''
       = JNum 10
   \<and> JStr ''size'' \<notin> set (required (projr
        (handleName ex_env (JObj []) (JObj []) ''size'' JUndef JUndef
           (initialState ex_size_fields))))
   \<and> isPropRequired
        (jdelete (nameDef (JObj []) JUndef (JStr ''string'') ''size'' ex_size_fields) ''default'')"
proof -
  let ?s = "initialState ex_size_fields"
  let ?r = "handleName ex_env (JObj []) (JObj []) ''size'' JUndef JUndef ?s"
  let ?d = "nameDef (JObj []) JUndef (JStr ''string'') ''size'' ex_size_fields"
  have ok: "\<not> isl ?r" by code_simp
  then have res: "?r = Inr (projr ?r)" by simp
  have o1: "isObject (acc ?s)" and o2: "isObject (jget (acc ?s) ''properties'')"
    by code_simp+
  have d: "?d = nameDef (JObj []) JUndef (js_or JUndef (JStr ''string'')) ''size'' (this ?s)"
    by (simp add: js_or_def initialState_def)
  have dflt: "jget ?d ''default'' = JNum 10" by code_simp
  have before: "JStr ''size'' \<notin> set (required ?s)" by (simp add: initialState_def)
  have rest: "jget ?d ''format'' \<noteq> JStr ''hidden'' \<and> jget ?d ''format'' \<noteq> JStr ''info''
            \<and> \<not> truthy (jget ?d ''mathExpression'') \<and> \<not> truthy (jget ?d ''dataFile'')"
    by code_simp
  from variable_required_iff [OF res o1 o2 d] ok dflt before rest
  show ?thesis by simp
qed

text \<open>
  Other tokens change \<open>required\<close> too. In \<open>{{x}}{{^x}}{{/x}}\<close> the inverted section
  removes \<open>x\<close> from \<open>required\<close>, although the property \<open>x\<close> passes
  \<open>_isPropRequired\<close>.
\<close>

theorem required_iff_counterexample:
  "loadedSchema ex_env (JStr ''{{x}}{{^x}}{{/x}}'') (JObj []) (JObj []) =
     Inr (JObj [(''type'', JStr ''object''),
        (''properties'', JObj [(''x'', JObj [(''type'', JStr ''string'')])]),
        (''required'', JArr []), (''title'', JStr []),
        (''description'', JStr []), (''definitions'', JObj [])])
   \<and> isPropRequired (JObj [(''type'', JStr ''string'')])"
  by (rule conjI; code_simp)

end
